theory Spec2Isabelle
  imports Complex_Main
begin

section \<open>Strings and numbers of the host language\<close>

text \<open>
  A string of the host language is a sequence of UTF-16 code units, here a list of
  numbers: a character of the Basic Multilingual Plane is one code unit, any other a
  surrogate pair. \<open>charAt\<close>, \<open>slice\<close>, \<open>substring\<close> and the length count code units.
  ASCII text is written as an Isabelle string literal and embedded by \<open>ascii\<close>.
\<close>

type_synonym codeunit = nat

type_synonym jsstring = "codeunit list"

definition charCode :: "char \<Rightarrow> codeunit" where
  "charCode c = of_char c"

definition ascii :: "string \<Rightarrow> jsstring" where
  "ascii s = map charCode s"

text \<open>
  White space is what the regular expression class \<^verbatim>\<open>\s\<close> matches and what
  \<open>trim\<close> removes: the white space and the line terminators of the language, that is
  tab, line feed, vertical tab, form feed, carriage return, space, no-break space
  (U+00A0), U+1680, U+2000 to U+200A, the line and paragraph separators U+2028 and
  U+2029, U+202F, U+205F, U+3000 and the byte order mark U+FEFF. Each is one code unit.
\<close>

definition isSpace :: "codeunit \<Rightarrow> bool" where
  "isSpace c =
     (c \<in> set [0x0009, 0x000A, 0x000B, 0x000C, 0x000D, 0x0020, 0x00A0, 0x1680,
                0x2000, 0x2001, 0x2002, 0x2003, 0x2004, 0x2005, 0x2006, 0x2007, 0x2008,
                0x2009, 0x200A, 0x2028, 0x2029, 0x202F, 0x205F, 0x3000, 0xFEFF])"

text \<open>\<^verbatim>\<open>s.replace(/\s+/g, '')\<close>: every run of white space is deleted.\<close>

definition removeWhitespace :: "jsstring \<Rightarrow> jsstring" where
  "removeWhitespace s = filter (\<lambda>c. \<not> isSpace c) s"

text \<open>\<^verbatim>\<open>s.replace(/^\+/, '')\<close>: one plus sign at the start is deleted.\<close>

fun removeLeadingPlus :: "jsstring \<Rightarrow> jsstring" where
  "removeLeadingPlus [] = []"
| "removeLeadingPlus (c # cs) = (if c = charCode (CHR ''+'') then cs else c # cs)"

text \<open>
  \<^verbatim>\<open>s.startsWith(p)\<close>; \<^verbatim>\<open>s.substring(i)\<close>, which for an index inside the string is also
  \<^verbatim>\<open>s.slice(i)\<close>; and \<^verbatim>\<open>s.substring(0, n)\<close>.
\<close>

definition startsWith :: "jsstring \<Rightarrow> jsstring \<Rightarrow> bool" where
  "startsWith s p = (take (length p) s = p)"

definition substringFrom :: "jsstring \<Rightarrow> nat \<Rightarrow> jsstring" where
  "substringFrom s i = drop i s"

definition substringTo :: "jsstring \<Rightarrow> nat \<Rightarrow> jsstring" where
  "substringTo s n = take n s"

text \<open>\<^verbatim>\<open>s.trim()\<close>: white space is removed at both ends.\<close>

definition trim :: "jsstring \<Rightarrow> jsstring" where
  "trim s = rev (dropWhile isSpace (rev (dropWhile isSpace s)))"

text \<open>
  \<^verbatim>\<open>s.split(/\s+/)\<close>: the pieces between the maximal runs of white space. A run at
  the start or at the end leaves an empty piece there, as in the host language, and the
  result always has a first element.
\<close>

function splitWhitespace :: "jsstring \<Rightarrow> jsstring list" where
  "splitWhitespace s =
     (let piece = takeWhile (\<lambda>c. \<not> isSpace c) s;
          rest = dropWhile (\<lambda>c. \<not> isSpace c) s
      in if rest = [] then [piece] else piece # splitWhitespace (dropWhile isSpace rest))"
  by pat_completeness auto
termination
proof (relation "measure length")
  show "wf (measure length)" by simp
next
  fix s :: jsstring and piece rest
  assume r: "rest = dropWhile (\<lambda>c. \<not> isSpace c) s" and ne: "rest \<noteq> []"
  have "length (dropWhile isSpace rest) \<le> length rest"
    by (rule length_dropWhile_le)
  moreover have "isSpace (hd rest)"
    using r ne hd_dropWhile [of "\<lambda>c. \<not> isSpace c" s] by simp
  then have "dropWhile isSpace rest = dropWhile isSpace (tl rest)"
    using ne by (cases rest) simp_all
  then have "length (dropWhile isSpace rest) < length rest"
    using ne length_dropWhile_le [of isSpace "tl rest"] by (cases rest) simp_all
  moreover have "length rest \<le> length s"
    unfolding r by (rule length_dropWhile_le)
  ultimately show "(dropWhile isSpace rest, s) \<in> measure length" by simp
qed

declare splitWhitespace.simps [simp del]

text \<open>\<^verbatim>\<open>s.charAt(i)\<close>: the code unit at the index as a string, empty out of range.\<close>

definition charAt :: "jsstring \<Rightarrow> nat \<Rightarrow> jsstring" where
  "charAt s i = take 1 (drop i s)"

text \<open>The letters and digits of ASCII, the characters a sender id may consist of.\<close>

definition isAlphanumeric :: "codeunit \<Rightarrow> bool" where
  "isAlphanumeric c =
     (c \<in> set (ascii ''abcdefghijklmnopqrstuvwxyzABCDEFGHIJKLMNOPQRSTUVWXYZ0123456789''))"

text \<open>
  An integer in a template literal: its decimal digits, with a minus sign below zero.
  Digits, sign and point are ASCII, so the printed number is an Isabelle string.
\<close>

definition digit :: "nat \<Rightarrow> char" where
  "digit n = ''0123456789'' ! (n mod 10)"

function showNat :: "nat \<Rightarrow> string" where
  "showNat n = (if n < 10 then [digit n] else showNat (n div 10) @ [digit (n mod 10)])"
  by pat_completeness auto
termination
  by (relation "measure id") auto

declare showNat.simps [simp del]

definition showInt :: "int \<Rightarrow> string" where
  "showInt i = (if i < 0 then ''-'' @ showNat (nat (- i)) else showNat (nat i))"

text \<open>
  Money is a whole number of pesewas (hundredths of a cedi), as the payment form's
  amount field, with minimum 0 and step 0.01, lets it be entered. \<^verbatim>\<open>x.toFixed(2)\<close>
  prints the cedis, a point and two digits.
\<close>

definition toFixed2 :: "nat \<Rightarrow> string" where
  "toFixed2 p = showNat (p div 100) @ ''.'' @ [digit (p mod 100 div 10), digit (p mod 10)]"


section \<open>The SMS service\<close>

record ArkeselConfig =
  apiKey :: jsstring
  senderId :: jsstring

text \<open>
  The sender id of a request: the caller's, with white space removed and cut to eleven
  characters, or the configured one when the caller gives none (or an empty one).
\<close>

definition finalSenderId :: "ArkeselConfig \<Rightarrow> jsstring option \<Rightarrow> jsstring" where
  "finalSenderId cfg sender =
     (case sender of
        None \<Rightarrow> senderId cfg
      | Some s \<Rightarrow> if s = [] then senderId cfg else substringTo (removeWhitespace s) 11)"

text \<open>The recipient's number in the gateway's format, as both send operations compute it.\<close>

definition formattedPhone :: "jsstring \<Rightarrow> jsstring" where
  "formattedPhone to =
     (let p0 = removeLeadingPlus (removeWhitespace to);
          p1 = (if startsWith p0 (ascii ''0'') then ascii ''233'' @ substringFrom p0 1 else p0);
          p2 = (if \<not> startsWith p1 (ascii ''233'') then ascii ''233'' @ p1 else p1)
      in p2)"


section \<open>Dates and the host\<close>

text \<open>
  A date object is its time value, the milliseconds since the epoch; dates are compared
  and subtracted through it. What the host computes from a time value is collected in a
  record: the day of the month, the month (0 to 11) and the year of the local calendar,
  the ISO string, the parsing of a date string, and the date library's addition of
  calendar months. With them stands the upper-casing of a string
  (\<^verbatim>\<open>s.toUpperCase()\<close>), which follows the Unicode case mappings of the runtime
  and may change the length of a string. The time zone, the date library and the Unicode
  tables are not part of the repository, so every theorem holds for any host.
\<close>

type_synonym Date = int

record Host =
  getDate :: "Date \<Rightarrow> nat"
  getMonth :: "Date \<Rightarrow> nat"
  getFullYear :: "Date \<Rightarrow> int"
  toISOString :: "Date \<Rightarrow> jsstring"
  newDate :: "jsstring \<Rightarrow> Date"
  addMonths :: "Date \<Rightarrow> nat \<Rightarrow> Date"
  toUpperCase :: "jsstring \<Rightarrow> jsstring"

text \<open>\<^verbatim>\<open>date.toLocaleDateString('en-US', { month: 'long' })\<close>, from the month number.\<close>

definition monthLong :: "nat \<Rightarrow> string" where
  "monthLong m =
     (if m < 12
      then [''January'', ''February'', ''March'', ''April'', ''May'', ''June'', ''July'',
            ''August'', ''September'', ''October'', ''November'', ''December''] ! m
      else [])"

text \<open>\<^verbatim>\<open>s.split('T')[0]\<close>: the date part of an ISO string.\<close>

definition isoDatePart :: "jsstring \<Rightarrow> jsstring" where
  "isoDatePart s = takeWhile (\<lambda>c. c \<noteq> charCode (CHR ''T'')) s"


section \<open>Message templates\<close>

text \<open>
  The optional vendor data of a template. A field that is absent, or present and empty,
  counts as missing (\<^verbatim>\<open>vendor?.name || default\<close>). The pictograph of each template is
  written as its code units.
\<close>

record VendorData =
  vd_name :: "jsstring option"
  vd_contact_phone :: "jsstring option"
  vd_slogan :: "jsstring option"

definition optField :: "'a option \<Rightarrow> ('a \<Rightarrow> jsstring option) \<Rightarrow> jsstring option" where
  "optField v f = (case v of None \<Rightarrow> None | Some x \<Rightarrow> f x)"

definition orDefault :: "jsstring option \<Rightarrow> jsstring \<Rightarrow> jsstring" where
  "orDefault x d = (case x of None \<Rightarrow> d | Some s \<Rightarrow> if s = [] then d else s)"

definition withSlogan :: "VendorData option \<Rightarrow> jsstring \<Rightarrow> jsstring" where
  "withSlogan vendor msg =
     (case optField vendor vd_slogan of
        None \<Rightarrow> msg
      | Some sl \<Rightarrow> if sl = [] then msg else msg @ [0x000A, 0x000A] @ sl)"

definition toOrdinalDate :: "Host \<Rightarrow> Date \<Rightarrow> jsstring" where
  "toOrdinalDate h date =
     (let day = getDate h date;
          month = ascii (monthLong (getMonth h date));
          year = getFullYear h date;
          suffix = (if day = 1 \<or> day = 21 \<or> day = 31 then ascii ''st''
                    else if day = 2 \<or> day = 22 then ascii ''nd''
                    else if day = 3 \<or> day = 23 then ascii ''rd''
                    else ascii ''th'')
      in ascii (showNat day) @ suffix @ ascii '' '' @ month @ ascii '', ''
         @ ascii (showInt year))"

definition firstName :: "Host \<Rightarrow> jsstring \<Rightarrow> jsstring" where
  "firstName h fullName =
     (let trimmed = trim fullName
      in if trimmed = [] then ascii ''Customer''
         else let parts = splitWhitespace trimmed;
                  p0 = hd parts
              in toUpperCase h (charAt p0 0) @ substringFrom p0 1)"

definition templateWelcome :: "Host \<Rightarrow> jsstring \<Rightarrow> Date \<Rightarrow> VendorData option \<Rightarrow> jsstring" where
  "templateWelcome h fullName endDate vendor =
     (let business = orDefault (optField vendor vd_name) (ascii ''Qaretech Innovative'');
          phone = orDefault (optField vendor vd_contact_phone) (ascii ''0241234567'');
          whatsapp = orDefault (optField vendor vd_contact_phone) (ascii ''0241234567'');
          name = firstName h fullName;
          endStr = toOrdinalDate h endDate;
          msg = business @ ascii '': '' @ [0xD83C, 0xDF89] @ ascii '' Welcome ''
                @ name @ ascii ''! Your internet service is active until '' @ endStr
                @ ascii ''. Need help? Call '' @ phone @ ascii '' or WhatsApp '' @ whatsapp
                @ ascii ''. Reply CALL if you want us to reach out.''
      in withSlogan vendor msg)"

definition templatePaymentConfirmation ::
  "Host \<Rightarrow> jsstring \<Rightarrow> nat \<Rightarrow> Date \<Rightarrow> VendorData option \<Rightarrow> jsstring" where
  "templatePaymentConfirmation h fullName totalAmount newEndDate vendor =
     (let business = orDefault (optField vendor vd_name) (ascii ''Qaretech Innovative'');
          phone = orDefault (optField vendor vd_contact_phone) (ascii ''0241234567'');
          whatsapp = orDefault (optField vendor vd_contact_phone) (ascii ''0241234567'');
          name = firstName h fullName;
          endStr = toOrdinalDate h newEndDate;
          msg = business @ ascii '': '' @ [0x2705] @ ascii '' Payment GHC ''
                @ ascii (toFixed2 totalAmount) @ ascii '' received. Thanks, '' @ name
                @ ascii ''! Your new expiry is '' @ endStr @ ascii ''. Questions? Call '' @ phone
                @ ascii '' or WhatsApp '' @ whatsapp @ ascii ''.''
      in withSlogan vendor msg)"

definition templateActivation :: "Host \<Rightarrow> jsstring \<Rightarrow> Date \<Rightarrow> VendorData option \<Rightarrow> jsstring" where
  "templateActivation h fullName newEndDate vendor =
     (let business = orDefault (optField vendor vd_name) (ascii ''Qaretech Innovative'');
          phone = orDefault (optField vendor vd_contact_phone) (ascii ''0241234567'');
          whatsapp = orDefault (optField vendor vd_contact_phone) (ascii ''0241234567'');
          name = firstName h fullName;
          endStr = toOrdinalDate h newEndDate;
          msg = business @ ascii '': '' @ [0xD83D, 0xDE80]
                @ ascii '' Service reactivated, '' @ name @ ascii ''! You're online until '' @ endStr
                @ ascii ''. Renew anytime via '' @ phone @ ascii '' or WhatsApp '' @ whatsapp
                @ ascii ''. Reply HELP for support.''
      in withSlogan vendor msg)"

definition templateExpired :: "Host \<Rightarrow> jsstring \<Rightarrow> int \<Rightarrow> Date \<Rightarrow> VendorData option \<Rightarrow> jsstring" where
  "templateExpired h fullName daysAgo endDate vendor =
     (let business = orDefault (optField vendor vd_name) (ascii ''Qaretech Innovative'');
          phone = orDefault (optField vendor vd_contact_phone) (ascii ''0241234567'');
          whatsapp = orDefault (optField vendor vd_contact_phone) (ascii ''0241234567'');
          name = firstName h fullName;
          endStr = toOrdinalDate h endDate;
          msg = business @ ascii '': '' @ [0x2757] @ ascii '' '' @ name
                @ ascii '', your service expired '' @ ascii (showInt daysAgo) @ ascii '' day''
                @ (if daysAgo > 1 then ascii ''s'' else []) @ ascii '' ago (on '' @ endStr
                @ ascii ''). Reactivate today: call '' @ phone @ ascii '' or WhatsApp '' @ whatsapp
                @ ascii ''. Reply CALL for assistance.''
      in withSlogan vendor msg)"

definition templateExpiring :: "Host \<Rightarrow> jsstring \<Rightarrow> int \<Rightarrow> Date \<Rightarrow> VendorData option \<Rightarrow> jsstring" where
  "templateExpiring h fullName daysLeft endDate vendor =
     (let business = orDefault (optField vendor vd_name) (ascii ''Qaretech Innovative'');
          phone = orDefault (optField vendor vd_contact_phone) (ascii ''0241234567'');
          whatsapp = orDefault (optField vendor vd_contact_phone) (ascii ''0241234567'');
          name = firstName h fullName;
          endStr = toOrdinalDate h endDate
      in if daysLeft \<le> 0 then templateExpired h fullName (abs daysLeft) endDate vendor
         else let msg = business @ ascii '': '' @ [0x23F0] @ ascii '' Hi '' @ name
                        @ ascii '', your subscription ends in '' @ ascii (showInt daysLeft) @ ascii '' day''
                        @ (if daysLeft > 1 then ascii ''s'' else []) @ ascii '' on '' @ endStr
                        @ ascii ''. Renew now: call '' @ phone @ ascii '' or WhatsApp '' @ whatsapp
                        @ ascii ''. Reply RENEW and we'll call you back.''
              in withSlogan vendor msg)"

definition templateMaintenance :: "jsstring \<Rightarrow> VendorData option \<Rightarrow> jsstring" where
  "templateMaintenance windowText vendor =
     (let business = orDefault (optField vendor vd_name) (ascii ''Qaretech Innovative'');
          phone = orDefault (optField vendor vd_contact_phone) (ascii ''0241234567'');
          whatsapp = orDefault (optField vendor vd_contact_phone) (ascii ''0241234567'');
          msg = business @ ascii '': ''
                @ [0xD83D, 0xDEE0, 0xFE0F]
                @ ascii '' Scheduled maintenance tonight ('' @ windowText
                @ ascii ''). You may notice brief interruptions. We'll be quick. Need help? ''
                @ phone @ ascii '' / WhatsApp '' @ whatsapp @ ascii ''.''
      in withSlogan vendor msg)"

definition templateNetworkUpdate :: "VendorData option \<Rightarrow> jsstring" where
  "templateNetworkUpdate vendor =
     (let business = orDefault (optField vendor vd_name) (ascii ''Qaretech Innovative'');
          phone = orDefault (optField vendor vd_contact_phone) (ascii ''0241234567'');
          msg = business @ ascii '': '' @ [0xD83C, 0xDD95]
                @ ascii '' Network upgrade complete! Enjoy improved speed and reliability. ''
                @ ascii ''If you notice issues, please restart your devices or contact '' @ phone
                @ ascii ''.''
      in withSlogan vendor msg)"


section \<open>Subscription status\<close>

text \<open>
  \<^verbatim>\<open>Math.ceil((expiry.getTime() - now.getTime()) / (1000 * 60 * 60 * 24))\<close>. The
  quotient is the exact one; the host's floating-point quotient agrees with it as long
  as the two dates are less than 2^27 days apart.
\<close>

definition daysUntil :: "Date \<Rightarrow> Date \<Rightarrow> int" where
  "daysUntil expiry now = \<lceil>real_of_int (expiry - now) / real_of_int (1000 * 60 * 60 * 24)\<rceil>"

record SubscriptionStatus =
  status :: jsstring
  color :: jsstring
  days :: int

text \<open>The dashboard's status of a customer, from the parsed expiry date and the clock.\<close>

definition getSubscriptionStatus :: "Date \<Rightarrow> Date \<Rightarrow> SubscriptionStatus" where
  "getSubscriptionStatus expiry now =
     (let d = daysUntil expiry now
      in if d < 0
         then \<lparr>status = ascii ''Expired'', color = ascii ''bg-red-100 text-red-800'', days = abs d\<rparr>
         else if d \<le> 3
         then \<lparr>status = ascii ''Expiring Soon'', color = ascii ''bg-yellow-100 text-yellow-800'', days = d\<rparr>
         else \<lparr>status = ascii ''Active'', color = ascii ''bg-green-100 text-green-800'', days = d\<rparr>)"

text \<open>
  The status cell of a recent customer in the vendor statistics: the style class and the
  label.
\<close>

definition recentCustomerStatus :: "Date \<Rightarrow> Date \<Rightarrow> jsstring \<times> jsstring" where
  "recentCustomerStatus expiry now =
     (let d = daysUntil expiry now;
          isExpired = d < 0;
          isExpiring = d \<le> 3 \<and> d \<ge> 0
      in (if isExpired then ascii ''bg-red-100 text-red-800''
          else if isExpiring then ascii ''bg-yellow-100 text-yellow-800''
          else ascii ''bg-green-100 text-green-800'',
          if isExpired then ascii ''Expired'' else if isExpiring then ascii ''Expiring'' else ascii ''Active''))"


section \<open>Rows, session and backend\<close>

text \<open>
  The rows of the customers and payments tables, with the fields the handlers write. A
  field that may be null or undefined is an option. Field names carry the initial of
  their record.
\<close>

datatype SubscriptionType = Basic | Standard | Premium | Enterprise

datatype PaymentMethod = cash | mobile_money | bank_transfer | card

record Customer =
  c_id :: "jsstring option"
  c_name :: jsstring
  c_phone :: jsstring
  c_subscription_type :: SubscriptionType
  c_monthly_fee :: nat
  c_subscription_date :: jsstring
  c_expiry_date :: jsstring
  c_is_active :: bool
  c_last_reminder_sent :: "jsstring option"
  c_notes :: "jsstring option"
  c_created_by :: "jsstring option"
  c_updated_at :: "jsstring option"
  c_vendor_id :: "jsstring option"

record Payment =
  p_customer_id :: "jsstring option"
  p_amount :: nat
  p_payment_method :: PaymentMethod
  p_payment_reference :: "jsstring option"
  p_payment_date :: jsstring
  p_months_paid :: nat
  p_notes :: "jsstring option"
  p_created_by :: "jsstring option"
  p_vendor_id :: "jsstring option"

record Vendor =
  v_id :: jsstring
  v_name :: jsstring
  v_contact_phone :: "jsstring option"
  v_slogan :: "jsstring option"

record User =
  u_id :: jsstring
  u_vendorId :: "jsstring option"

record SmsRequest =
  req_sender :: jsstring
  req_message :: jsstring
  req_recipients :: "jsstring list"

text \<open>
  The backend is what the handlers cannot decide: whether the database takes an insert
  or an update (the error message when it does not), the id it gives a new customer, and
  whether the gateway takes the n-th request posted to it (the message of the error that
  the send operation throws when it does not: a transport failure, an HTTP error or a
  response the provider check rejects).
\<close>

record Backend =
  insertPaymentError :: "Payment \<Rightarrow> jsstring option"
  insertCustomerError :: "Customer \<Rightarrow> jsstring option"
  updateCustomersError :: "jsstring option list \<Rightarrow> jsstring option"
  newCustomerId :: "Customer list \<Rightarrow> jsstring"
  gateway :: "nat \<Rightarrow> SmsRequest \<Rightarrow> jsstring option"

text \<open>
  What a handler runs in: the host, the SMS configuration, the backend, the signed-in
  user, the user's vendor, and the clock. The clock readings of one handler run are
  taken at one instant.
\<close>

record Env =
  host :: Host
  config :: ArkeselConfig
  backend :: Backend
  user :: "User option"
  vendor :: "Vendor option"
  now :: Date

text \<open>
  What a handler changes: the two tables, the requests posted to the gateway, the alerts
  shown, and the modal's own state (its error line, its result line, and whether it
  called \<^verbatim>\<open>onSave\<close> and \<^verbatim>\<open>onClose\<close>).
\<close>

record World =
  payments :: "Payment list"
  customers :: "Customer list"
  outbox :: "SmsRequest list"
  alerts :: "jsstring list"
  formError :: jsstring
  result :: "(bool \<times> jsstring) option"
  saved :: bool
  closed :: bool

text \<open>\<^verbatim>\<open>s || null\<close>, for a string and for an optional string.\<close>

definition orNull :: "jsstring \<Rightarrow> jsstring option" where
  "orNull s = (if s = [] then None else Some s)"

definition orNullOpt :: "jsstring option \<Rightarrow> jsstring option" where
  "orNullOpt x = (case x of None \<Rightarrow> None | Some s \<Rightarrow> orNull s)"

text \<open>The vendor data that every handler builds for the templates.\<close>

definition vendorData :: "Vendor option \<Rightarrow> VendorData option" where
  "vendorData v =
     (case v of
        None \<Rightarrow> None
      | Some x \<Rightarrow> Some \<lparr>vd_name = Some (v_name x), vd_contact_phone = v_contact_phone x,
                         vd_slogan = v_slogan x\<rparr>)"

text \<open>
  Sending one message: an error when the service has no API key; otherwise the request
  is posted, and the send fails with the gateway's error or returns. (The encoding hint
  that the request carries for a text outside GSM-7 is left out.)
\<close>

definition sendSMS ::
  "Env \<Rightarrow> jsstring \<Rightarrow> jsstring \<Rightarrow> jsstring option \<Rightarrow> World \<Rightarrow> (jsstring + unit) \<times> World" where
  "sendSMS env to msg sender w =
     (if apiKey (config env) = []
      then (Inl (ascii ''SMS service not configured. ''
                 @ ascii ''Please set up Arkesel API key in environment variables.''), w)
      else let requestData = \<lparr>req_sender = finalSenderId (config env) sender,
                               req_message = msg,
                               req_recipients = [formattedPhone to]\<rparr>;
               w' = w\<lparr>outbox := outbox w @ [requestData]\<rparr>
           in case gateway (backend env) (length (outbox w)) requestData of
                Some reason \<Rightarrow> (Inl reason, w')
              | None \<Rightarrow> (Inr (), w'))"

text \<open>
  The bulk variant: one request with one text for all recipients. It reports instead of
  throwing: all recipients sent, or all failed with the one error.
\<close>

definition sendBulkSMS ::
  "Env \<Rightarrow> jsstring list \<Rightarrow> jsstring \<Rightarrow> jsstring option \<Rightarrow> World
   \<Rightarrow> (jsstring + nat \<times> nat \<times> jsstring list) \<times> World" where
  "sendBulkSMS env recipients msg sender w =
     (if apiKey (config env) = []
      then (Inl (ascii ''SMS service not configured. ''
                 @ ascii ''Please set up Arkesel API key in environment variables.''), w)
      else let formattedRecipients = map formattedPhone recipients;
               requestData = \<lparr>req_sender = finalSenderId (config env) sender,
                               req_message = msg,
                               req_recipients = formattedRecipients\<rparr>;
               w' = w\<lparr>outbox := outbox w @ [requestData]\<rparr>
           in case gateway (backend env) (length (outbox w)) requestData of
                Some reason \<Rightarrow> (Inr (0, length formattedRecipients, [reason]), w')
              | None \<Rightarrow> (Inr (length formattedRecipients, 0, []), w'))"


section \<open>Recording a payment\<close>

record PaymentForm =
  f_amount :: nat
  f_payment_method :: PaymentMethod
  f_payment_reference :: jsstring
  f_payment_date :: jsstring
  f_months_paid :: nat
  f_notes :: jsstring

definition sendPaymentConfirmationSMS ::
  "Env \<Rightarrow> Customer \<Rightarrow> nat \<Rightarrow> Date \<Rightarrow> World \<Rightarrow> (jsstring + unit) \<times> World" where
  "sendPaymentConfirmationSMS env customer amount newEndDate w =
     (let msg = templatePaymentConfirmation (host env) (c_name customer) amount newEndDate
                  (vendorData (vendor env))
      in sendSMS env (c_phone customer) msg (map_option v_name (vendor env)) w)"

definition sendServiceActivationSMS ::
  "Env \<Rightarrow> Customer \<Rightarrow> Date \<Rightarrow> World \<Rightarrow> (jsstring + unit) \<times> World" where
  "sendServiceActivationSMS env customer newEndDate w =
     (let msg = templateActivation (host env) (c_name customer) newEndDate
                  (vendorData (vendor env))
      in sendSMS env (c_phone customer) msg (map_option v_name (vendor env)) w)"

text \<open>The local values of the payment handler: the anchor, the new expiry, the flag.\<close>

definition startDate :: "Env \<Rightarrow> Customer \<Rightarrow> Date" where
  "startDate env customer =
     (let currentExpiry = newDate (host env) (c_expiry_date customer)
      in if currentExpiry > now env then currentExpiry else now env)"

definition newExpiry :: "Env \<Rightarrow> Customer \<Rightarrow> PaymentForm \<Rightarrow> Date" where
  "newExpiry env customer fd = addMonths (host env) (startDate env customer) (f_months_paid fd)"

definition wasExpired :: "Env \<Rightarrow> Customer \<Rightarrow> bool" where
  "wasExpired env customer =
     (let oldExpiry = newDate (host env) (c_expiry_date customer)
      in oldExpiry < now env)"

definition paymentData :: "Env \<Rightarrow> Customer \<Rightarrow> PaymentForm \<Rightarrow> Payment" where
  "paymentData env customer fd =
     \<lparr>p_customer_id = c_id customer,
      p_amount = f_amount fd,
      p_payment_method = f_payment_method fd,
      p_payment_reference = orNull (f_payment_reference fd),
      p_payment_date = f_payment_date fd,
      p_months_paid = f_months_paid fd,
      p_notes = orNull (f_notes fd),
      p_created_by = map_option u_id (user env),
      p_vendor_id = orNullOpt (Option.bind (user env) u_vendorId)\<rparr>"

text \<open>The update of the paid customer's row.\<close>

definition extendCustomer :: "Env \<Rightarrow> Customer \<Rightarrow> PaymentForm \<Rightarrow> Customer \<Rightarrow> Customer" where
  "extendCustomer env customer fd row =
     (if c_id row = c_id customer
      then row\<lparr>c_expiry_date := isoDatePart (toISOString (host env) (newExpiry env customer fd)),
               c_is_active := True,
               c_updated_at := Some (toISOString (host env) (now env))\<rparr>
      else row)"

text \<open>The two notifications of a payment, in one block: a failure of the first skips the second.\<close>

definition paymentNotifications ::
  "Env \<Rightarrow> Customer \<Rightarrow> PaymentForm \<Rightarrow> World \<Rightarrow> (jsstring + unit) \<times> World" where
  "paymentNotifications env customer fd w =
     (case sendPaymentConfirmationSMS env customer (f_amount fd * f_months_paid fd)
             (newExpiry env customer fd) w of
        (Inl e, w') \<Rightarrow> (Inl e, w')
      | (Inr u, w') \<Rightarrow>
          if wasExpired env customer
          then sendServiceActivationSMS env customer (newExpiry env customer fd) w'
          else (Inr (), w'))"

definition handleSubmitPayment ::
  "Env \<Rightarrow> Customer \<Rightarrow> PaymentForm \<Rightarrow> World \<Rightarrow> World" where
  "handleSubmitPayment env customer fd w =
     (let w0 = w\<lparr>formError := []\<rparr>
      in case insertPaymentError (backend env) (paymentData env customer fd) of
           Some m \<Rightarrow> w0\<lparr>formError := ascii ''Failed to record payment: '' @ m\<rparr>
         | None \<Rightarrow>
             (let w1 = w0\<lparr>payments := payments w0 @ [paymentData env customer fd]\<rparr>
              in (case updateCustomersError (backend env) [c_id customer] of
                    Some m \<Rightarrow> w1\<lparr>formError := ascii ''Failed to update customer: '' @ m\<rparr>
                  | None \<Rightarrow>
                      (let w2 = w1\<lparr>customers :=
                                     map (extendCustomer env customer fd) (customers w1)\<rparr>;
                           w4 = (case paymentNotifications env customer fd w2 of
                                   (Inl smsError, w3) \<Rightarrow>
                                     w3\<lparr>alerts := alerts w3
                                          @ [ascii ''Payment processed successfully, ''
                                             @ ascii ''but SMS notification failed to send.'']\<rparr>
                                 | (Inr u, w3) \<Rightarrow> w3)
                       in w4\<lparr>saved := True, closed := True\<rparr>))))"

text \<open>
  The two requests that the payment handler builds: the payment confirmation, with the
  total of the payment, and the activation notice.
\<close>

definition confirmationRequest :: "Env \<Rightarrow> Customer \<Rightarrow> PaymentForm \<Rightarrow> SmsRequest" where
  "confirmationRequest env c fd =
     \<lparr>req_sender = finalSenderId (config env) (map_option v_name (vendor env)),
      req_message = templatePaymentConfirmation (host env) (c_name c)
                      (f_amount fd * f_months_paid fd) (newExpiry env c fd)
                      (vendorData (vendor env)),
      req_recipients = [formattedPhone (c_phone c)]\<rparr>"

definition activationRequest :: "Env \<Rightarrow> Customer \<Rightarrow> PaymentForm \<Rightarrow> SmsRequest" where
  "activationRequest env c fd =
     \<lparr>req_sender = finalSenderId (config env) (map_option v_name (vendor env)),
      req_message = templateActivation (host env) (c_name c) (newExpiry env c fd)
                      (vendorData (vendor env)),
      req_recipients = [formattedPhone (c_phone c)]\<rparr>"


section \<open>Creating a customer\<close>

record CustomerForm =
  cf_name :: jsstring
  cf_phone :: jsstring
  cf_subscription_type :: SubscriptionType
  cf_monthly_fee :: nat
  cf_subscription_date :: jsstring
  cf_notes :: jsstring

definition sendWelcomeMessageSMS ::
  "Env \<Rightarrow> Customer \<Rightarrow> Date \<Rightarrow> World \<Rightarrow> (jsstring + unit) \<times> World" where
  "sendWelcomeMessageSMS env customerData endDate w =
     (let msg = templateWelcome (host env) (c_name customerData) endDate
                  (vendorData (vendor env))
      in sendSMS env (c_phone customerData) msg (map_option v_name (vendor env)) w)"

definition expiryDate :: "Env \<Rightarrow> CustomerForm \<Rightarrow> Date" where
  "expiryDate env fd = addMonths (host env) (newDate (host env) (cf_subscription_date fd)) 1"

definition customerData :: "Env \<Rightarrow> CustomerForm \<Rightarrow> Customer" where
  "customerData env fd =
     \<lparr>c_id = None,
      c_name = cf_name fd,
      c_phone = cf_phone fd,
      c_subscription_type = cf_subscription_type fd,
      c_monthly_fee = cf_monthly_fee fd,
      c_subscription_date = cf_subscription_date fd,
      c_expiry_date = isoDatePart (toISOString (host env) (expiryDate env fd)),
      c_is_active = True,
      c_last_reminder_sent = None,
      c_notes = orNull (cf_notes fd),
      c_created_by = map_option u_id (user env),
      c_updated_at = None,
      c_vendor_id = orNullOpt (Option.bind (user env) u_vendorId)\<rparr>"

text \<open>The update of an edited customer's row with the form's fields.\<close>

definition editCustomer :: "Customer \<Rightarrow> Customer \<Rightarrow> Customer \<Rightarrow> Customer" where
  "editCustomer customer d row =
     (if c_id row = c_id customer
      then row\<lparr>c_name := c_name d, c_phone := c_phone d,
               c_subscription_type := c_subscription_type d,
               c_monthly_fee := c_monthly_fee d,
               c_subscription_date := c_subscription_date d,
               c_expiry_date := c_expiry_date d, c_is_active := c_is_active d,
               c_notes := c_notes d, c_created_by := c_created_by d,
               c_vendor_id := c_vendor_id d\<rparr>
      else row)"

definition handleSubmitCustomer ::
  "Env \<Rightarrow> Customer option \<Rightarrow> CustomerForm \<Rightarrow> World \<Rightarrow> World" where
  "handleSubmitCustomer env customer fd w =
     (let w0 = w\<lparr>formError := []\<rparr>;
          d = customerData env fd
      in case customer of
           Some existing \<Rightarrow>
             (case updateCustomersError (backend env) [c_id existing] of
                Some m \<Rightarrow> w0\<lparr>formError := ascii ''Failed to update customer: '' @ m\<rparr>
              | None \<Rightarrow>
                  w0\<lparr>customers := map (editCustomer existing d) (customers w0),
                     saved := True, closed := True\<rparr>)
         | None \<Rightarrow>
             (case insertCustomerError (backend env) d of
                Some m \<Rightarrow> w0\<lparr>formError := ascii ''Failed to create customer: '' @ m\<rparr>
              | None \<Rightarrow>
                  let row = d\<lparr>c_id := Some (newCustomerId (backend env) (customers w0))\<rparr>;
                      w1 = w0\<lparr>customers := customers w0 @ [row]\<rparr>;
                      w3 = (case sendWelcomeMessageSMS env d (expiryDate env fd) w1 of
                              (Inl smsError, w2) \<Rightarrow>
                                w2\<lparr>alerts := alerts w2
                                     @ [ascii ''Customer created successfully, ''
                                        @ ascii ''but welcome SMS failed to send.'']\<rparr>
                            | (Inr u, w2) \<Rightarrow> w2)
                  in w3\<lparr>saved := True, closed := True\<rparr>))"


section \<open>Sending messages to selected customers\<close>

datatype MessageType = Custom | Maintenance | Update | Welcome | Expiring | Expired

record SmsForm =
  sf_phone :: jsstring
  sf_customerName :: jsstring
  sf_message :: jsstring
  sf_messageType :: MessageType

text \<open>The message for one selected customer: the typed text, or the customer's own template.\<close>

definition personalizedMessage :: "Env \<Rightarrow> SmsForm \<Rightarrow> Customer \<Rightarrow> jsstring" where
  "personalizedMessage env fd customer =
     (if sf_messageType fd \<noteq> Custom
      then if sf_messageType fd = Welcome
           then templateWelcome (host env) (c_name customer)
                  (newDate (host env) (c_expiry_date customer)) (vendorData (vendor env))
           else if sf_messageType fd = Expiring \<or> sf_messageType fd = Expired
           then let expiry = newDate (host env) (c_expiry_date customer);
                    d = daysUntil expiry (now env)
                in if d < 0
                   then templateExpired (host env) (c_name customer) (abs d) expiry
                          (vendorData (vendor env))
                   else templateExpiring (host env) (c_name customer) d expiry
                          (vendorData (vendor env))
           else if sf_messageType fd = Maintenance
           then templateMaintenance (ascii ''11 PM - 2 AM'') (vendorData (vendor env))
           else if sf_messageType fd = Update
           then templateNetworkUpdate (vendorData (vendor env))
           else sf_message fd
      else sf_message fd)"

text \<open>\<^verbatim>\<open>errors.join(', ')\<close>.\<close>

fun joinComma :: "jsstring list \<Rightarrow> jsstring" where
  "joinComma [] = []"
| "joinComma [x] = x"
| "joinComma (x # y # ys) = x @ ascii '', '' @ joinComma (y # ys)"

text \<open>
  The loop over several selected customers: each send is awaited in turn, a success is
  counted, a failure is counted and its error noted with the customer's name, and the
  loop goes on.
\<close>

fun sendEach ::
  "Env \<Rightarrow> SmsForm \<Rightarrow> Customer list \<Rightarrow> nat \<times> nat \<times> jsstring list \<Rightarrow> World
   \<Rightarrow> (nat \<times> nat \<times> jsstring list) \<times> World" where
  "sendEach env fd [] acc w = (acc, w)"
| "sendEach env fd (customer # rest) (successful, failed, errors) w =
     (case sendSMS env (c_phone customer) (personalizedMessage env fd customer)
             (map_option v_name (vendor env)) w of
        (Inr u, w') \<Rightarrow> sendEach env fd rest (successful + 1, failed, errors) w'
      | (Inl e, w') \<Rightarrow>
          sendEach env fd rest (successful, failed + 1, errors @ [c_name customer @ ascii '': '' @ e]) w')"

text \<open>The result line after the loop.\<close>

definition bulkResult :: "nat \<times> nat \<times> jsstring list \<Rightarrow> bool \<times> jsstring" where
  "bulkResult acc =
     (case acc of (successful, failed, errors) \<Rightarrow>
        (successful > 0,
         if successful > 0
         then ascii ''Personalized SMS sent to '' @ ascii (showNat successful) @ ascii '' customer(s)''
              @ (if failed > 0
                 then ascii ''. '' @ ascii (showNat failed) @ ascii '' failed: '' @ joinComma errors
                 else ascii ''!'')
         else ascii ''Failed to send SMS: '' @ joinComma errors))"

text \<open>
  The update that stamps the selected customers; its outcome is not looked at, so a
  refused update leaves the table as it is and is not reported.
\<close>

definition stampReminder :: "Env \<Rightarrow> jsstring list \<Rightarrow> World \<Rightarrow> World" where
  "stampReminder env selectedCustomers w =
     (case updateCustomersError (backend env) (map Some selectedCustomers) of
        Some m \<Rightarrow> w
      | None \<Rightarrow>
          w\<lparr>customers :=
               map (\<lambda>row. if c_id row \<in> set (map Some selectedCustomers)
                          then row\<lparr>c_last_reminder_sent := Some (toISOString (host env) (now env))\<rparr>
                          else row)
                 (customers w)\<rparr>)"

text \<open>
  The handler, given the customers the modal has loaded and the selected ids. With one
  customer found, a failed send leaves the handler like any other error, before the
  update; with none found, the first read of a field of the missing customer fails the
  same way (the wording of that error is the engine's).
\<close>

definition undefinedCustomer :: "MessageType \<Rightarrow> jsstring" where
  "undefinedCustomer t =
     ascii ''Cannot read properties of undefined (reading '' @ [0x0027]
     @ (if t = Welcome then ascii ''name''
        else if t = Expiring \<or> t = Expired then ascii ''expiry_date''
        else ascii ''phone'')
     @ [0x0027] @ ascii '')''"

definition handleSubmitSMS ::
  "Env \<Rightarrow> Customer list \<Rightarrow> jsstring list \<Rightarrow> SmsForm \<Rightarrow> World \<Rightarrow> World" where
  "handleSubmitSMS env loaded selectedCustomers fd w =
     (let w0 = w\<lparr>result := None\<rparr>
      in if length selectedCustomers > 0
         then let selectedCustomerDetails =
                    filter (\<lambda>c. c_id c \<in> set (map Some selectedCustomers)) loaded
              in if length selectedCustomerDetails > 1
                 then (case sendEach env fd selectedCustomerDetails (0, 0, []) w0 of
                         (acc, w1) \<Rightarrow>
                           stampReminder env selectedCustomers (w1\<lparr>result := Some (bulkResult acc)\<rparr>))
                 else (case selectedCustomerDetails of
                         [] \<Rightarrow> w0\<lparr>result := Some (False, undefinedCustomer (sf_messageType fd))\<rparr>
                       | customer # rest \<Rightarrow>
                           (case sendSMS env (c_phone customer)
                                   (personalizedMessage env fd customer)
                                   (map_option v_name (vendor env)) w0 of
                              (Inl e, w1) \<Rightarrow> w1\<lparr>result := Some (False, e)\<rparr>
                            | (Inr u, w1) \<Rightarrow>
                                stampReminder env selectedCustomers
                                  (w1\<lparr>result := Some (True,
                                        ascii ''Personalized SMS sent successfully to ''
                                        @ c_name customer @ ascii ''!'')\<rparr>)))
         else if sf_phone fd \<noteq> []
         then (case sendSMS env (sf_phone fd) (sf_message fd)
                      (map_option v_name (vendor env)) w0 of
                 (Inl e, w1) \<Rightarrow> w1\<lparr>result := Some (False, e)\<rparr>
               | (Inr u, w1) \<Rightarrow> w1\<lparr>result := Some (True, ascii ''SMS sent successfully!'')\<rparr>)
         else w0\<lparr>result := Some (False, ascii ''Please select customers or enter a phone number'')\<rparr>)"


section \<open>The quick reminder of the dashboard\<close>

text \<open>
  One customer's reminder from the customer list: the Expired template below zero days,
  the Expiring template otherwise; the row is stamped after the send returned, and a
  failed send goes to the alert of the handler's catch.
\<close>

definition handleQuickSMSReminder :: "Env \<Rightarrow> Customer \<Rightarrow> World \<Rightarrow> World" where
  "handleQuickSMSReminder env customer w =
     (let expiry = newDate (host env) (c_expiry_date customer);
          d = daysUntil expiry (now env);
          msg = (if d < 0
                 then templateExpired (host env) (c_name customer) (abs d) expiry
                        (vendorData (vendor env))
                 else if d \<le> 7
                 then templateExpiring (host env) (c_name customer) d expiry
                        (vendorData (vendor env))
                 else templateExpiring (host env) (c_name customer) d expiry
                        (vendorData (vendor env)))
      in case sendSMS env (c_phone customer) msg (map_option v_name (vendor env)) w of
           (Inl e, w1) \<Rightarrow>
             w1\<lparr>alerts := alerts w1 @ [ascii ''Failed to send SMS to '' @ c_name customer @ ascii '': '' @ e]\<rparr>
         | (Inr u, w1) \<Rightarrow>
             (case updateCustomersError (backend env) [c_id customer] of
                Some m \<Rightarrow> w1
              | None \<Rightarrow>
                  w1\<lparr>customers :=
                       map (\<lambda>row. if c_id row = c_id customer
                                  then row\<lparr>c_last_reminder_sent :=
                                             Some (toISOString (host env) (now env))\<rparr>
                                  else row)
                         (customers w1)\<rparr>)
               \<lparr>alerts := alerts w1
                          @ [ascii ''SMS reminder sent successfully to '' @ c_name customer @ ascii ''!'']\<rparr>)"


section \<open>An example host and an example session\<close>

text \<open>
  A host in the UTC time zone, for the concrete runs below: the proleptic Gregorian
  calendar from the day number, ISO strings, the parsing of a date-only string
  (\<^verbatim>\<open>YYYY-MM-DD\<close>, read as midnight UTC; any other string is read as the epoch), and
  the addition of calendar months that keeps the time of day and falls back to the last
  day of a shorter month.
\<close>

definition msPerDay :: int where
  "msPerDay = 1000 * 60 * 60 * 24"

definition daysFromCivil :: "int \<Rightarrow> int \<Rightarrow> int \<Rightarrow> int" where
  "daysFromCivil y m d =
     (let y1 = (if m \<le> 2 then y - 1 else y);
          era = y1 div 400;
          yoe = y1 - era * 400;
          mp = (m + 9) mod 12;
          doy = (153 * mp + 2) div 5 + d - 1;
          doe = yoe * 365 + yoe div 4 - yoe div 100 + doy
      in era * 146097 + doe - 719468)"

definition civilFromDays :: "int \<Rightarrow> int \<times> int \<times> int" where
  "civilFromDays z0 =
     (let z = z0 + 719468;
          era = z div 146097;
          doe = z - era * 146097;
          yoe = (doe - doe div 1460 + doe div 36524 - doe div 146096) div 365;
          doy = doe - (365 * yoe + yoe div 4 - yoe div 100);
          mp = (5 * doy + 2) div 153;
          d = doy - (153 * mp + 2) div 5 + 1;
          m = (if mp < 10 then mp + 3 else mp - 9);
          y = yoe + era * 400
      in (if m \<le> 2 then y + 1 else y, m, d))"

definition utcYear :: "Date \<Rightarrow> int" where
  "utcYear t = fst (civilFromDays (t div msPerDay))"

definition utcMonth :: "Date \<Rightarrow> int" where
  "utcMonth t = fst (snd (civilFromDays (t div msPerDay)))"

definition utcDay :: "Date \<Rightarrow> int" where
  "utcDay t = snd (snd (civilFromDays (t div msPerDay)))"

definition daysInMonth :: "int \<Rightarrow> int \<Rightarrow> int" where
  "daysInMonth y m =
     (if m = 12 then daysFromCivil (y + 1) 1 1 else daysFromCivil y (m + 1) 1)
     - daysFromCivil y m 1"

definition utcAddMonths :: "Date \<Rightarrow> nat \<Rightarrow> Date" where
  "utcAddMonths t amount =
     (let k = utcYear t * 12 + (utcMonth t - 1) + int amount;
          y = k div 12;
          m = k mod 12 + 1;
          d = min (utcDay t) (daysInMonth y m)
      in daysFromCivil y m d * msPerDay + t mod msPerDay)"

definition pad2 :: "nat \<Rightarrow> string" where
  "pad2 n = [digit (n div 10), digit n]"

definition pad3 :: "nat \<Rightarrow> string" where
  "pad3 n = [digit (n div 100), digit (n div 10), digit n]"

definition pad4 :: "nat \<Rightarrow> string" where
  "pad4 n = [digit (n div 1000), digit (n div 100), digit (n div 10), digit n]"

definition utcISOString :: "Date \<Rightarrow> string" where
  "utcISOString t =
     (let ms = nat (t mod msPerDay)
      in pad4 (nat (utcYear t)) @ ''-'' @ pad2 (nat (utcMonth t)) @ ''-'' @ pad2 (nat (utcDay t))
         @ ''T'' @ pad2 (ms div 3600000) @ '':'' @ pad2 (ms div 60000 mod 60) @ '':''
         @ pad2 (ms div 1000 mod 60) @ ''.'' @ pad3 (ms mod 1000) @ ''Z'')"

definition digitValue :: "codeunit \<Rightarrow> int" where
  "digitValue c = (if 0x0030 \<le> c \<and> c \<le> 0x0039 then int c - 0x0030 else 0)"

definition number :: "jsstring \<Rightarrow> int" where
  "number s = foldl (\<lambda>n c. 10 * n + digitValue c) 0 s"

definition utcNewDate :: "jsstring \<Rightarrow> Date" where
  "utcNewDate s =
     (if length s = 10 \<and> s ! 4 = charCode (CHR ''-'') \<and> s ! 7 = charCode (CHR ''-'')
      then daysFromCivil (number (take 4 s)) (number (take 2 (drop 5 s)))
             (number (take 2 (drop 8 s))) * msPerDay
      else 0)"

text \<open>
  The upper-casing of the example host covers Basic Latin and the Latin-1 Supplement:
  a to z and the accented small letters move to their capitals, the sharp s becomes SS,
  the micro sign the Greek capital mu, y with diaeresis U+0178; every other code unit is
  left as it is.
\<close>

definition upperCaseUnit :: "codeunit \<Rightarrow> jsstring" where
  "upperCaseUnit c =
     (if 0x0061 \<le> c \<and> c \<le> 0x007A then [c - 0x0020]
      else if c = 0x00B5 then [0x039C]
      else if c = 0x00DF then [0x0053, 0x0053]
      else if 0x00E0 \<le> c \<and> c \<le> 0x00FE \<and> c \<noteq> 0x00F7 then [c - 0x0020]
      else if c = 0x00FF then [0x0178]
      else [c])"

definition latinUpperCase :: "jsstring \<Rightarrow> jsstring" where
  "latinUpperCase s = concat (map upperCaseUnit s)"

definition utcHost :: Host where
  "utcHost =
     \<lparr>getDate = (\<lambda>t. nat (utcDay t)),
      getMonth = (\<lambda>t. nat (utcMonth t - 1)),
      getFullYear = utcYear,
      toISOString = (\<lambda>t. ascii (utcISOString t)),
      newDate = utcNewDate,
      addMonths = utcAddMonths,
      toUpperCase = latinUpperCase\<rparr>"

text \<open>
  A session on 11 November 2025, 09:00 UTC, with a configured SMS service, a database
  that takes every write and a gateway that takes every request; and a customer whose
  subscription ran out on 1 November 2025, ten days before.
\<close>

definition acceptingBackend :: Backend where
  "acceptingBackend =
     \<lparr>insertPaymentError = (\<lambda>p. None),
      insertCustomerError = (\<lambda>c. None),
      updateCustomersError = (\<lambda>ids. None),
      newCustomerId = (\<lambda>rows. ascii ''c'' @ ascii (showNat (length rows))),
      gateway = (\<lambda>n r. None)\<rparr>"

definition exampleEnv :: Env where
  "exampleEnv =
     \<lparr>host = utcHost,
      config = \<lparr>apiKey = ascii ''key'', senderId = ascii ''Qaretech''\<rparr>,
      backend = acceptingBackend,
      user = Some \<lparr>u_id = ascii ''u1'', u_vendorId = Some (ascii ''v1'')\<rparr>,
      vendor = None,
      now = 1762851600000\<rparr>"

definition ama :: Customer where
  "ama =
     \<lparr>c_id = Some (ascii ''c1''), c_name = ascii ''ama serwaa'', c_phone = ascii ''0241234567'',
      c_subscription_type = Basic, c_monthly_fee = 5000,
      c_subscription_date = ascii ''2025-10-01'', c_expiry_date = ascii ''2025-11-01'',
      c_is_active = True, c_last_reminder_sent = None, c_notes = None,
      c_created_by = Some (ascii ''u1''), c_updated_at = None, c_vendor_id = Some (ascii ''v1'')\<rparr>"

definition kofi :: Customer where
  "kofi =
     \<lparr>c_id = Some (ascii ''c2''), c_name = ascii ''Kofi Mensah'', c_phone = ascii ''+233 20 111 2222'',
      c_subscription_type = Standard, c_monthly_fee = 8000,
      c_subscription_date = ascii ''2025-10-20'', c_expiry_date = ascii ''2025-11-20'',
      c_is_active = True, c_last_reminder_sent = None, c_notes = None,
      c_created_by = Some (ascii ''u1''), c_updated_at = None, c_vendor_id = Some (ascii ''v1'')\<rparr>"

definition initialWorld :: World where
  "initialWorld =
     \<lparr>payments = [], customers = [ama, kofi], outbox = [], alerts = [], formError = [],
      result = None, saved = False, closed = False\<rparr>"

definition onePayment :: PaymentForm where
  "onePayment =
     \<lparr>f_amount = 5000, f_payment_method = mobile_money, f_payment_reference = [],
      f_payment_date = ascii ''2025-11-11'', f_months_paid = 1, f_notes = []\<rparr>"

text \<open>
  Variants of the session: a gateway that refuses every request, and one that refuses
  the third request only; a payment of three months; a new customer's form; a third
  customer; and the form of a reminder to the selected customers.
\<close>

definition rejectingEnv :: Env where
  "rejectingEnv =
     exampleEnv\<lparr>backend := acceptingBackend\<lparr>gateway := (\<lambda>n r. Some (ascii ''Insufficient balance''))\<rparr>\<rparr>"

definition rejectThirdEnv :: Env where
  "rejectThirdEnv =
     exampleEnv\<lparr>backend :=
       acceptingBackend\<lparr>gateway := (\<lambda>n r. if n = 2 then Some (ascii ''Invalid phone number'') else None)\<rparr>\<rparr>"

definition threeMonths :: PaymentForm where
  "threeMonths = onePayment\<lparr>f_months_paid := 3\<rparr>"

definition abenaForm :: CustomerForm where
  "abenaForm =
     \<lparr>cf_name = ascii ''Abena Owusu'', cf_phone = ascii ''0501234567'', cf_subscription_type = Premium,
      cf_monthly_fee = 12000, cf_subscription_date = ascii ''2025-11-11'', cf_notes = []\<rparr>"

definition abena :: Customer where
  "abena =
     \<lparr>c_id = Some (ascii ''c3''), c_name = ascii ''Abena Owusu'', c_phone = ascii ''050 123 4567'',
      c_subscription_type = Premium, c_monthly_fee = 12000,
      c_subscription_date = ascii ''2025-10-13'', c_expiry_date = ascii ''2025-11-13'',
      c_is_active = True, c_last_reminder_sent = None, c_notes = None,
      c_created_by = Some (ascii ''u1''), c_updated_at = None, c_vendor_id = Some (ascii ''v1'')\<rparr>"

definition reminderForm :: SmsForm where
  "reminderForm =
     \<lparr>sf_phone = [], sf_customerName = [], sf_message = [], sf_messageType = Expiring\<rparr>"


section \<open>Embedded ASCII text\<close>

lemma charCode_eq_iff: "charCode a = charCode b \<longleftrightarrow> a = b"
  by (simp add: charCode_def)

lemma ascii_eq_iff: "ascii a = ascii b \<longleftrightarrow> a = b"
  by (simp add: ascii_def inj_map_eq_map inj_on_def charCode_eq_iff)

lemma ascii_append: "ascii (a @ b) = ascii a @ ascii b"
  by (simp add: ascii_def)


section \<open>Phone numbers\<close>

lemma removeWhitespace_fixed_iff: "removeWhitespace s = s \<longleftrightarrow> (\<forall>c \<in> set s. \<not> isSpace c)"
  by (simp add: removeWhitespace_def filter_id_conv)

lemma removeWhitespace_no_space: "\<forall>c \<in> set (removeWhitespace s). \<not> isSpace c"
  by (simp add: removeWhitespace_def)

lemma set_removeLeadingPlus: "set (removeLeadingPlus t) \<subseteq> set t"
  by (cases t) auto

lemma formattedPhone_startsWith: "startsWith (formattedPhone x) (ascii ''233'')"
  by (simp add: formattedPhone_def startsWith_def Let_def ascii_def)

lemma formattedPhone_no_whitespace: "removeWhitespace (formattedPhone x) = formattedPhone x"
proof -
  let ?p0 = "removeLeadingPlus (removeWhitespace x)"
  have p0: "\<forall>c \<in> set ?p0. \<not> isSpace c"
    using removeWhitespace_no_space [of x] set_removeLeadingPlus [of "removeWhitespace x"]
    by blast
  have d: "\<forall>c \<in> set (drop 1 ?p0). \<not> isSpace c"
    using p0 set_drop_subset [of 1 ?p0] by blast
  have k: "\<forall>c \<in> set (ascii ''233''). \<not> isSpace c"
    by (simp add: isSpace_def ascii_def charCode_def)
  have "\<forall>c \<in> set (formattedPhone x). \<not> isSpace c"
    unfolding formattedPhone_def Let_def substringFrom_def set_append
    using p0 d k by (auto simp del: One_nat_def)
  then show ?thesis by (simp add: removeWhitespace_fixed_iff)
qed

lemma formattedPhone_fixed:
  assumes "removeWhitespace y = y" and "startsWith y (ascii ''233'')"
  shows "formattedPhone y = y"
proof -
  obtain r where y: "y = ascii ''233'' @ r"
    using assms(2) by (metis append_take_drop_id startsWith_def)
  then have "removeLeadingPlus y = y" by (simp add: ascii_def charCode_def)
  moreover have "\<not> startsWith y (ascii ''0'')"
    using y by (simp add: startsWith_def ascii_def charCode_def)
  ultimately show ?thesis
    using assms by (simp add: formattedPhone_def Let_def)
qed

text \<open>
  C5. Formatting a phone number is idempotent: a number that went through the
  formatting comes out of a second pass unchanged, for every input string. The local
  number 0241234567 and the international +233241234567 both become 233241234567.
\<close>

theorem formattedPhone_idempotent:
  "formattedPhone (formattedPhone x) = formattedPhone x
   \<and> formattedPhone (ascii ''0241234567'') = ascii ''233241234567''
   \<and> formattedPhone (ascii ''+233241234567'') = ascii ''233241234567''"
proof -
  have "formattedPhone (formattedPhone x) = formattedPhone x"
    using formattedPhone_no_whitespace formattedPhone_startsWith by (rule formattedPhone_fixed)
  moreover have "formattedPhone (ascii ''0241234567'') = ascii ''233241234567''"
    by (simp add: formattedPhone_def removeWhitespace_def isSpace_def startsWith_def
        substringFrom_def ascii_def charCode_def)
  moreover have "formattedPhone (ascii ''+233241234567'') = ascii ''233241234567''"
    by (simp add: formattedPhone_def removeWhitespace_def isSpace_def startsWith_def
        substringFrom_def ascii_def charCode_def)
  ultimately show ?thesis by simp
qed


section \<open>Sender id\<close>

lemma finalSenderId_length:
  "s \<noteq> [] \<Longrightarrow> length (finalSenderId cfg (Some s)) \<le> 11"
  by (simp add: finalSenderId_def substringTo_def)

lemma finalSenderId_no_whitespace:
  "s \<noteq> [] \<Longrightarrow> \<forall>c \<in> set (finalSenderId cfg (Some s)). \<not> isSpace c"
  using removeWhitespace_no_space [of s] set_take_subset [of 11 "removeWhitespace s"]
  by (auto simp: finalSenderId_def substringTo_def)

text \<open>
  C9. The sender id sent to the gateway should consist of letters and digits only, hold
  no white space and be at most eleven characters long. The length and the white space
  are as claimed (the two lemmas above); other characters pass through: the vendor name
  ``A&B Internet Services'' is sent as the sender id ``A&BInternet'', by the single send
  and by the bulk send.
\<close>

theorem finalSenderId_keeps_symbols:
  "finalSenderId cfg (Some (ascii ''A&B Internet Services'')) = ascii ''A&BInternet''
   \<and> \<not> list_all isAlphanumeric (finalSenderId cfg (Some (ascii ''A&B Internet Services'')))
   \<and> map req_sender
        (outbox (snd (sendSMS exampleEnv (ascii ''0241234567'') (ascii ''Hello'')
                        (Some (ascii ''A&B Internet Services'')) initialWorld)))
      = [ascii ''A&BInternet'']
   \<and> map req_sender
        (outbox (snd (sendBulkSMS exampleEnv [ascii ''0241234567''] (ascii ''Hello'')
                        (Some (ascii ''A&B Internet Services'')) initialWorld)))
      = [ascii ''A&BInternet'']"
  by (simp add: finalSenderId_def substringTo_def removeWhitespace_def isSpace_def
      isAlphanumeric_def sendSMS_def sendBulkSMS_def exampleEnv_def acceptingBackend_def
      initialWorld_def ascii_def charCode_def)


section \<open>Templates\<close>

lemma hd_splitWhitespace: "hd (splitWhitespace s) = takeWhile (\<lambda>c. \<not> isSpace c) s"
  by (subst splitWhitespace.simps) (simp add: Let_def)

lemma trim_Nil_iff: "trim s = [] \<longleftrightarrow> list_all isSpace s"
proof -
  let ?t = "dropWhile isSpace s"
  have "dropWhile isSpace (rev ?t) = [] \<longleftrightarrow> ?t = []"
  proof
    assume a: "dropWhile isSpace (rev ?t) = []"
    show "?t = []"
    proof (rule ccontr)
      assume ne: "?t \<noteq> []"
      then have "\<not> isSpace (hd ?t)" by (rule hd_dropWhile)
      moreover have "hd ?t \<in> set (rev ?t)" using ne by simp
      ultimately show False using a by (auto simp: dropWhile_eq_Nil_conv)
    qed
  next
    assume "?t = []"
    then show "dropWhile isSpace (rev ?t) = []" by (simp only: rev.simps dropWhile.simps)
  qed
  then show ?thesis
    by (simp add: trim_def dropWhile_eq_Nil_conv list_all_iff)
qed

lemma takeWhile_trim:
  "takeWhile (\<lambda>c. \<not> isSpace c) (trim s) = takeWhile (\<lambda>c. \<not> isSpace c) (dropWhile isSpace s)"
proof -
  let ?t = "dropWhile isSpace s"
  let ?P = "\<lambda>c. \<not> isSpace c"
  have split: "rev ?t = takeWhile isSpace (rev ?t) @ dropWhile isSpace (rev ?t)" by simp
  define sp where "sp = rev (takeWhile isSpace (rev ?t))"
  have t: "?t = trim s @ sp"
    unfolding sp_def trim_def by (metis rev_append rev_rev_ident split)
  have sp: "\<forall>c \<in> set sp. isSpace c"
    unfolding sp_def by (auto dest: set_takeWhileD)
  show ?thesis
  proof (cases "\<exists>x \<in> set (trim s). isSpace x")
    case True
    then obtain x where "x \<in> set (trim s)" "\<not> ?P x" by auto
    then have "takeWhile ?P (trim s @ sp) = takeWhile ?P (trim s)"
      by (rule takeWhile_append1)
    then show ?thesis using t by simp
  next
    case False
    then have "takeWhile ?P (trim s @ sp) = trim s @ takeWhile ?P sp"
      by (intro takeWhile_append2) auto
    moreover have "takeWhile ?P sp = []" using sp by (cases sp) auto
    moreover have "takeWhile ?P (trim s) = trim s" using False by (simp add: takeWhile_eq_all_conv)
    ultimately show ?thesis using t by simp
  qed
qed

lemma firstName_blank: "list_all isSpace n \<Longrightarrow> firstName h n = ascii ''Customer''"
  by (simp add: firstName_def trim_Nil_iff)

lemma firstName_token:
  "\<not> list_all isSpace n \<Longrightarrow>
   firstName h n
     = toUpperCase h (take 1 (takeWhile (\<lambda>c. \<not> isSpace c) (dropWhile isSpace n)))
       @ drop 1 (takeWhile (\<lambda>c. \<not> isSpace c) (dropWhile isSpace n))"
  by (simp add: firstName_def trim_Nil_iff hd_splitWhitespace takeWhile_trim charAt_def
      substringFrom_def Let_def del: One_nat_def)

lemma firstName_greeting:
  "firstName h n
     = (if list_all isSpace n then ascii ''Customer''
        else toUpperCase h (take 1 (takeWhile (\<lambda>c. \<not> isSpace c) (dropWhile isSpace n)))
             @ drop 1 (takeWhile (\<lambda>c. \<not> isSpace c) (dropWhile isSpace n)))"
  using firstName_blank [of n h] firstName_token [of n h] by (simp del: One_nat_def)

lemma toOrdinalDate_rendered:
  "toOrdinalDate h d
     = ascii (showNat (getDate h d))
       @ (if getDate h d \<in> {1, 21, 31} then ascii ''st''
          else if getDate h d \<in> {2, 22} then ascii ''nd''
          else if getDate h d \<in> {3, 23} then ascii ''rd''
          else ascii ''th'')
       @ ascii '' '' @ ascii (monthLong (getMonth h d)) @ ascii '', ''
       @ ascii (showInt (getFullYear h d))"
  by (simp add: toOrdinalDate_def Let_def)

lemma utc_civil_20433: "civilFromDays 20433 = (2025, 12, 11)"
  by code_simp

lemma utc_fields_1765443600000:
  "getDate utcHost 1765443600000 = 11 \<and> getMonth utcHost 1765443600000 = 11
   \<and> getFullYear utcHost 1765443600000 = 2025"
  by (simp add: utcHost_def utcDay_def utcMonth_def utcYear_def msPerDay_def utc_civil_20433)

lemma utcHost_toUpperCase: "toUpperCase utcHost = latinUpperCase"
  by (simp add: utcHost_def)

text \<open>
  C7. Every template that takes a name and a date renders them the same way. The
  greeting is ``Customer'' for a name that is empty or all white space, and otherwise the
  first white-space-delimited piece of the name, with its first code unit upper-cased by
  the host. The date is the day number, its ordinal suffix (st for 1, 21 and 31, nd for 2
  and 22, rd for 3 and 23, th for every other day), the full month name, a comma and the
  year. The five renderers are given in full, with this greeting and this date in them.
\<close>

theorem templates_greeting_and_date:
  "(list_all isSpace n \<longrightarrow> firstName h n = ascii ''Customer'')
   \<and> (\<not> list_all isSpace n \<longrightarrow>
        firstName h n
          = toUpperCase h (take 1 (takeWhile (\<lambda>c. \<not> isSpace c) (dropWhile isSpace n)))
            @ drop 1 (takeWhile (\<lambda>c. \<not> isSpace c) (dropWhile isSpace n)))
   \<and> (let greeting =
            (if list_all isSpace n then ascii ''Customer''
             else toUpperCase h (take 1 (takeWhile (\<lambda>c. \<not> isSpace c) (dropWhile isSpace n)))
                  @ drop 1 (takeWhile (\<lambda>c. \<not> isSpace c) (dropWhile isSpace n)));
          dateText =
            ascii (showNat (getDate h d))
            @ (if getDate h d \<in> {1, 21, 31} then ascii ''st''
               else if getDate h d \<in> {2, 22} then ascii ''nd''
               else if getDate h d \<in> {3, 23} then ascii ''rd''
               else ascii ''th'')
            @ ascii '' '' @ ascii (monthLong (getMonth h d)) @ ascii '', ''
            @ ascii (showInt (getFullYear h d));
          business = orDefault (optField v vd_name) (ascii ''Qaretech Innovative'');
          phone = orDefault (optField v vd_contact_phone) (ascii ''0241234567'')
      in toOrdinalDate h d = dateText
         \<and> templateWelcome h n d v
             = withSlogan v
                 (business @ ascii '': '' @ [0xD83C, 0xDF89] @ ascii '' Welcome '' @ greeting
                  @ ascii ''! Your internet service is active until '' @ dateText
                  @ ascii ''. Need help? Call '' @ phone @ ascii '' or WhatsApp '' @ phone
                  @ ascii ''. Reply CALL if you want us to reach out.'')
         \<and> templatePaymentConfirmation h n amt d v
             = withSlogan v
                 (business @ ascii '': '' @ [0x2705] @ ascii '' Payment GHC ''
                  @ ascii (toFixed2 amt) @ ascii '' received. Thanks, '' @ greeting
                  @ ascii ''! Your new expiry is '' @ dateText @ ascii ''. Questions? Call ''
                  @ phone @ ascii '' or WhatsApp '' @ phone @ ascii ''.'')
         \<and> templateActivation h n d v
             = withSlogan v
                 (business @ ascii '': '' @ [0xD83D, 0xDE80] @ ascii '' Service reactivated, ''
                  @ greeting @ ascii ''! You're online until '' @ dateText
                  @ ascii ''. Renew anytime via '' @ phone @ ascii '' or WhatsApp '' @ phone
                  @ ascii ''. Reply HELP for support.'')
         \<and> templateExpired h n k d v
             = withSlogan v
                 (business @ ascii '': '' @ [0x2757] @ ascii '' '' @ greeting
                  @ ascii '', your service expired '' @ ascii (showInt k) @ ascii '' day''
                  @ (if k > 1 then ascii ''s'' else []) @ ascii '' ago (on '' @ dateText
                  @ ascii ''). Reactivate today: call '' @ phone @ ascii '' or WhatsApp ''
                  @ phone @ ascii ''. Reply CALL for assistance.'')
         \<and> (0 < k \<longrightarrow>
             templateExpiring h n k d v
               = withSlogan v
                   (business @ ascii '': '' @ [0x23F0] @ ascii '' Hi '' @ greeting
                    @ ascii '', your subscription ends in '' @ ascii (showInt k)
                    @ ascii '' day'' @ (if k > 1 then ascii ''s'' else []) @ ascii '' on ''
                    @ dateText @ ascii ''. Renew now: call '' @ phone
                    @ ascii '' or WhatsApp '' @ phone
                    @ ascii ''. Reply RENEW and we'll call you back.'')))"
proof -
  have g: "firstName h n
     = (if list_all isSpace n then ascii ''Customer''
        else toUpperCase h (take 1 (takeWhile (\<lambda>c. \<not> isSpace c) (dropWhile isSpace n)))
             @ drop 1 (takeWhile (\<lambda>c. \<not> isSpace c) (dropWhile isSpace n)))"
    by (rule firstName_greeting)
  have d: "toOrdinalDate h d
     = ascii (showNat (getDate h d))
       @ (if getDate h d \<in> {1, 21, 31} then ascii ''st''
          else if getDate h d \<in> {2, 22} then ascii ''nd''
          else if getDate h d \<in> {3, 23} then ascii ''rd''
          else ascii ''th'')
       @ ascii '' '' @ ascii (monthLong (getMonth h d)) @ ascii '', ''
       @ ascii (showInt (getFullYear h d))"
    by (rule toOrdinalDate_rendered)
  have w: "templateWelcome h n d v
     = withSlogan v
         (orDefault (optField v vd_name) (ascii ''Qaretech Innovative'') @ ascii '': ''
          @ [0xD83C, 0xDF89] @ ascii '' Welcome '' @ firstName h n
          @ ascii ''! Your internet service is active until '' @ toOrdinalDate h d
          @ ascii ''. Need help? Call ''
          @ orDefault (optField v vd_contact_phone) (ascii ''0241234567'')
          @ ascii '' or WhatsApp ''
          @ orDefault (optField v vd_contact_phone) (ascii ''0241234567'')
          @ ascii ''. Reply CALL if you want us to reach out.'')"
    by (simp add: templateWelcome_def Let_def)
  have p: "templatePaymentConfirmation h n amt d v
     = withSlogan v
         (orDefault (optField v vd_name) (ascii ''Qaretech Innovative'') @ ascii '': ''
          @ [0x2705] @ ascii '' Payment GHC '' @ ascii (toFixed2 amt)
          @ ascii '' received. Thanks, '' @ firstName h n @ ascii ''! Your new expiry is ''
          @ toOrdinalDate h d @ ascii ''. Questions? Call ''
          @ orDefault (optField v vd_contact_phone) (ascii ''0241234567'')
          @ ascii '' or WhatsApp ''
          @ orDefault (optField v vd_contact_phone) (ascii ''0241234567'') @ ascii ''.'')"
    by (simp add: templatePaymentConfirmation_def Let_def)
  have a: "templateActivation h n d v
     = withSlogan v
         (orDefault (optField v vd_name) (ascii ''Qaretech Innovative'') @ ascii '': ''
          @ [0xD83D, 0xDE80] @ ascii '' Service reactivated, '' @ firstName h n
          @ ascii ''! You're online until '' @ toOrdinalDate h d
          @ ascii ''. Renew anytime via ''
          @ orDefault (optField v vd_contact_phone) (ascii ''0241234567'')
          @ ascii '' or WhatsApp ''
          @ orDefault (optField v vd_contact_phone) (ascii ''0241234567'')
          @ ascii ''. Reply HELP for support.'')"
    by (simp add: templateActivation_def Let_def)
  have x: "templateExpired h n k d v
     = withSlogan v
         (orDefault (optField v vd_name) (ascii ''Qaretech Innovative'') @ ascii '': ''
          @ [0x2757] @ ascii '' '' @ firstName h n @ ascii '', your service expired ''
          @ ascii (showInt k) @ ascii '' day'' @ (if k > 1 then ascii ''s'' else [])
          @ ascii '' ago (on '' @ toOrdinalDate h d @ ascii ''). Reactivate today: call ''
          @ orDefault (optField v vd_contact_phone) (ascii ''0241234567'')
          @ ascii '' or WhatsApp ''
          @ orDefault (optField v vd_contact_phone) (ascii ''0241234567'')
          @ ascii ''. Reply CALL for assistance.'')"
    by (simp add: templateExpired_def Let_def)
  have e: "0 < k \<longrightarrow>
     templateExpiring h n k d v
       = withSlogan v
           (orDefault (optField v vd_name) (ascii ''Qaretech Innovative'') @ ascii '': ''
            @ [0x23F0] @ ascii '' Hi '' @ firstName h n
            @ ascii '', your subscription ends in '' @ ascii (showInt k) @ ascii '' day''
            @ (if k > 1 then ascii ''s'' else []) @ ascii '' on '' @ toOrdinalDate h d
            @ ascii ''. Renew now: call ''
            @ orDefault (optField v vd_contact_phone) (ascii ''0241234567'')
            @ ascii '' or WhatsApp ''
            @ orDefault (optField v vd_contact_phone) (ascii ''0241234567'')
            @ ascii ''. Reply RENEW and we'll call you back.'')"
    by (simp add: templateExpiring_def Let_def)
  show ?thesis
    unfolding Let_def w p a x
    using e by (simp add: g d del: One_nat_def)
qed

text \<open>
  In the UTC host, for 11 December 2025: a blank name; the name ``ama serwaa'' in the
  welcome and in the expiring message of one day; a name that starts with an accented
  letter; and a name behind a no-break space.
\<close>

theorem templates_greeting_and_date_witness:
  "list_all isSpace (ascii ''   '')
   \<and> firstName utcHost (ascii ''   '') = ascii ''Customer''
   \<and> \<not> list_all isSpace (ascii ''ama serwaa'')
   \<and> firstName utcHost (ascii ''ama serwaa'') = ascii ''Ama''
   \<and> toOrdinalDate utcHost 1765443600000 = ascii ''11th December, 2025''
   \<and> templateWelcome utcHost (ascii ''ama serwaa'') 1765443600000 None
     = ascii ''Qaretech Innovative: '' @ [0xD83C, 0xDF89]
       @ ascii '' Welcome Ama! Your internet service is active until 11th December, 2025. ''
       @ ascii ''Need help? Call 0241234567 or WhatsApp 0241234567. ''
       @ ascii ''Reply CALL if you want us to reach out.''
   \<and> templateExpiring utcHost (ascii ''ama serwaa'') 1 1765443600000 None
     = ascii ''Qaretech Innovative: '' @ [0x23F0]
       @ ascii '' Hi Ama, your subscription ends in 1 day on 11th December, 2025. ''
       @ ascii ''Renew now: call 0241234567 or WhatsApp 0241234567. ''
       @ ascii ''Reply RENEW and we'll call you back.''
   \<and> templateExpired utcHost ([0x00E9] @ ascii ''lodie dupont'') 1 1765443600000 None
     = ascii ''Qaretech Innovative: '' @ [0x2757] @ ascii '' '' @ [0x00C9]
       @ ascii ''lodie, your service expired 1 day ago (on 11th December, 2025). ''
       @ ascii ''Reactivate today: call 0241234567 or WhatsApp 0241234567. ''
       @ ascii ''Reply CALL for assistance.''
   \<and> firstName utcHost ([0x00A0] @ ascii ''ama serwaa'') = ascii ''Ama''"
  using templates_greeting_and_date [of "ascii ''   ''" utcHost 1765443600000 None 0 1]
    templates_greeting_and_date [of "ascii ''ama serwaa''" utcHost 1765443600000 None 0 1]
    templates_greeting_and_date
      [of "[0x00E9] @ ascii ''lodie dupont''" utcHost 1765443600000 None 0 1]
    templates_greeting_and_date
      [of "[0x00A0] @ ascii ''ama serwaa''" utcHost 1765443600000 None 0 1]
  by (simp add: Let_def isSpace_def utcHost_toUpperCase latinUpperCase_def upperCaseUnit_def
      utc_fields_1765443600000 monthLong_def showInt_def showNat.simps digit_def
      withSlogan_def orDefault_def optField_def ascii_def charCode_def)

text \<open>
  C8. With a day count of zero or less, the Expiring template returns what the Expired
  template returns for the absolute value of the count and the same name, date and
  vendor. With a positive count it renders the days that remain, with ``day'' for a
  count of 1 and ``days'' for any other.
\<close>

theorem templateExpiring_delegates:
  "(daysLeft \<le> 0 \<longrightarrow>
      templateExpiring h n daysLeft e v = templateExpired h n (abs daysLeft) e v)
   \<and> (daysLeft > 0 \<longrightarrow>
      templateExpiring h n daysLeft e v
        = withSlogan v
            (orDefault (optField v vd_name) (ascii ''Qaretech Innovative'') @ ascii '': ''
             @ [0x23F0] @ ascii '' Hi '' @ firstName h n
             @ ascii '', your subscription ends in '' @ ascii (showInt daysLeft)
             @ (if daysLeft = 1 then ascii '' day'' else ascii '' days'') @ ascii '' on ''
             @ toOrdinalDate h e @ ascii ''. Renew now: call ''
             @ orDefault (optField v vd_contact_phone) (ascii ''0241234567'')
             @ ascii '' or WhatsApp ''
             @ orDefault (optField v vd_contact_phone) (ascii ''0241234567'')
             @ ascii ''. Reply RENEW and we'll call you back.''))"
  by (simp add: templateExpiring_def Let_def ascii_def)

text \<open>
  Counts of 0 and of minus 2, and the rendered text for 1 day and for 5 days.
\<close>

theorem templateExpiring_delegates_witness:
  "templateExpiring utcHost (ascii ''ama serwaa'') 0 1765443600000 None
     = templateExpired utcHost (ascii ''ama serwaa'') 0 1765443600000 None
   \<and> templateExpiring utcHost (ascii ''ama serwaa'') (- 2) 1765443600000 None
     = templateExpired utcHost (ascii ''ama serwaa'') 2 1765443600000 None
   \<and> templateExpiring utcHost (ascii ''ama serwaa'') 1 1765443600000 None
     = ascii ''Qaretech Innovative: '' @ [0x23F0]
       @ ascii '' Hi Ama, your subscription ends in 1 day on 11th December, 2025. ''
       @ ascii ''Renew now: call 0241234567 or WhatsApp 0241234567. ''
       @ ascii ''Reply RENEW and we'll call you back.''
   \<and> templateExpiring utcHost (ascii ''ama serwaa'') 5 1765443600000 None
     = ascii ''Qaretech Innovative: '' @ [0x23F0]
       @ ascii '' Hi Ama, your subscription ends in 5 days on 11th December, 2025. ''
       @ ascii ''Renew now: call 0241234567 or WhatsApp 0241234567. ''
       @ ascii ''Reply RENEW and we'll call you back.''"
  using templateExpiring_delegates [of 0 utcHost "ascii ''ama serwaa''" 1765443600000 None]
    templateExpiring_delegates [of "- 2" utcHost "ascii ''ama serwaa''" 1765443600000 None]
    templateExpiring_delegates [of 1 utcHost "ascii ''ama serwaa''" 1765443600000 None]
    templateExpiring_delegates [of 5 utcHost "ascii ''ama serwaa''" 1765443600000 None]
  by (simp add: withSlogan_def orDefault_def optField_def firstName_def trim_def isSpace_def
      splitWhitespace.simps charAt_def substringFrom_def utcHost_toUpperCase
      latinUpperCase_def upperCaseUnit_def toOrdinalDate_def utc_fields_1765443600000
      monthLong_def showInt_def showNat.simps digit_def ascii_def charCode_def)


section \<open>Subscription status\<close>

lemma daysUntil_div: "daysUntil E N = - ((N - E) div 86400000)"
proof -
  have "\<lceil>real_of_int (E - N) / real_of_int 86400000\<rceil> = - (- (E - N) div 86400000)"
    by (rule ceiling_divide_eq_div)
  then show ?thesis by (simp add: daysUntil_def)
qed

lemma daysUntil_negative_iff: "daysUntil E N < 0 \<longleftrightarrow> E + 86400000 \<le> N"
  unfolding daysUntil_div by linarith

lemma daysUntil_soon_iff:
  "0 \<le> daysUntil E N \<and> daysUntil E N \<le> 3 \<longleftrightarrow> N < E + 86400000 \<and> E \<le> N + 3 * 86400000"
  unfolding daysUntil_div by linarith

text \<open>
  C1. For every expiry date and clock reading, the status is Expired exactly when the
  day count, the ceiling of the difference in days, is below zero (and the days shown are
  its absolute value), Expiring Soon exactly when it is between 0 and 3, and Active
  otherwise; a day count of 0 is Expiring Soon. The status cell of the vendor statistics
  draws the same three classes, under the labels Expired, Expiring and Active.
\<close>

theorem getSubscriptionStatus_classifies:
  "(status (getSubscriptionStatus E N) = ascii ''Expired'' \<longleftrightarrow> daysUntil E N < 0)
   \<and> (status (getSubscriptionStatus E N) = ascii ''Expiring Soon''
        \<longleftrightarrow> 0 \<le> daysUntil E N \<and> daysUntil E N \<le> 3)
   \<and> (status (getSubscriptionStatus E N) = ascii ''Active'' \<longleftrightarrow> 3 < daysUntil E N)
   \<and> (daysUntil E N < 0 \<longrightarrow> days (getSubscriptionStatus E N) = abs (daysUntil E N))
   \<and> (0 \<le> daysUntil E N \<longrightarrow> days (getSubscriptionStatus E N) = daysUntil E N)
   \<and> (daysUntil E N = 0 \<longrightarrow> status (getSubscriptionStatus E N) = ascii ''Expiring Soon'')
   \<and> (snd (recentCustomerStatus E N) = ascii ''Expired'' \<longleftrightarrow> daysUntil E N < 0)
   \<and> (snd (recentCustomerStatus E N) = ascii ''Expiring''
        \<longleftrightarrow> 0 \<le> daysUntil E N \<and> daysUntil E N \<le> 3)
   \<and> (snd (recentCustomerStatus E N) = ascii ''Active'' \<longleftrightarrow> 3 < daysUntil E N)
   \<and> daysUntil E N = \<lceil>real_of_int (E - N) / 86400000\<rceil>"
  by (auto simp: getSubscriptionStatus_def recentCustomerStatus_def Let_def daysUntil_def
      ascii_eq_iff)

text \<open>
  Expiry at the clock reading, five days before it, two days and four days after it.
\<close>

theorem getSubscriptionStatus_classifies_witness:
  "daysUntil 1762851600000 1762851600000 = 0
   \<and> status (getSubscriptionStatus 1762851600000 1762851600000) = ascii ''Expiring Soon''
   \<and> status (getSubscriptionStatus (1762851600000 - 5 * 86400000) 1762851600000) = ascii ''Expired''
   \<and> days (getSubscriptionStatus (1762851600000 - 5 * 86400000) 1762851600000) = 5
   \<and> status (getSubscriptionStatus (1762851600000 + 2 * 86400000) 1762851600000) = ascii ''Expiring Soon''
   \<and> days (getSubscriptionStatus (1762851600000 + 2 * 86400000) 1762851600000) = 2
   \<and> status (getSubscriptionStatus (1762851600000 + 4 * 86400000) 1762851600000) = ascii ''Active''"
  using getSubscriptionStatus_classifies [of 1762851600000 1762851600000]
    getSubscriptionStatus_classifies [of "1762851600000 - 5 * 86400000" 1762851600000]
    getSubscriptionStatus_classifies [of "1762851600000 + 2 * 86400000" 1762851600000]
    getSubscriptionStatus_classifies [of "1762851600000 + 4 * 86400000" 1762851600000]
  by (simp add: daysUntil_div)

section \<open>Expiry extension\<close>

lemma startDate_max: "startDate env customer = max (newDate (host env) (c_expiry_date customer)) (now env)"
  by (simp add: startDate_def Let_def max_def)

text \<open>
  C2. The new expiry of a payment is the later of the current expiry and the clock
  reading, plus the months paid, added by the date library. When the clock is not past
  the current expiry, that is the current expiry plus the months, whatever the clock
  reads; when the current expiry is past, it is the clock reading plus the months.
\<close>

theorem newExpiry_anchor:
  "newExpiry env customer fd
     = addMonths (host env) (max (newDate (host env) (c_expiry_date customer)) (now env))
         (f_months_paid fd)
   \<and> (now env \<le> newDate (host env) (c_expiry_date customer) \<longrightarrow>
        newExpiry env customer fd
          = addMonths (host env) (newDate (host env) (c_expiry_date customer)) (f_months_paid fd))
   \<and> (newDate (host env) (c_expiry_date customer) < now env \<longrightarrow>
        newExpiry env customer fd = addMonths (host env) (now env) (f_months_paid fd))
   \<and> (n1 \<le> newDate (host env) (c_expiry_date customer)
        \<and> n2 \<le> newDate (host env) (c_expiry_date customer) \<longrightarrow>
        newExpiry (env\<lparr>now := n1\<rparr>) customer fd = newExpiry (env\<lparr>now := n2\<rparr>) customer fd)"
  by (simp add: newExpiry_def startDate_max max_def)

lemma utcNewDate_ama: "utcNewDate (ascii ''2025-11-01'') = 1761955200000"
  by code_simp

lemma utcNewDate_kofi: "utcNewDate (ascii ''2025-11-20'') = 1763596800000"
  by code_simp

lemma utcAddMonths_now: "utcAddMonths 1762851600000 1 = 1765443600000"
  by code_simp

lemma utcAddMonths_kofi: "utcAddMonths 1763596800000 1 = 1766188800000"
  by code_simp

lemma utcAddMonths_clamp: "utcAddMonths (utcNewDate (ascii ''2026-01-31'')) 1 = utcNewDate (ascii ''2026-02-28'')"
  by code_simp

text \<open>
  One month paid on 11 November 2025 at 09:00 UTC: for the customer expired on 1 November
  the new expiry is 11 December, 09:00; for the customer expiring on 20 November it is
  20 December, also when the clock reads the epoch.
\<close>

theorem newExpiry_anchor_witness:
  "0 < f_months_paid onePayment
   \<and> newDate (host exampleEnv) (c_expiry_date ama) < now exampleEnv
   \<and> newExpiry exampleEnv ama onePayment = 1765443600000
   \<and> now exampleEnv \<le> newDate (host exampleEnv) (c_expiry_date kofi)
   \<and> newExpiry exampleEnv kofi onePayment = 1766188800000
   \<and> newExpiry (exampleEnv\<lparr>now := 0\<rparr>) kofi onePayment = newExpiry exampleEnv kofi onePayment"
  using newExpiry_anchor [of exampleEnv ama onePayment 0 0]
    newExpiry_anchor [of exampleEnv kofi onePayment 0 "now exampleEnv"]
  by (simp add: exampleEnv_def utcHost_def ama_def kofi_def onePayment_def utcNewDate_ama
      utcNewDate_kofi utcAddMonths_now utcAddMonths_kofi del: One_nat_def)


section \<open>Sending one message\<close>

lemma sendSMS_unconfigured:
  "apiKey (config env) = [] \<Longrightarrow> snd (sendSMS env to msg sender w) = w \<and> isl (fst (sendSMS env to msg sender w))"
  by (simp add: sendSMS_def)

lemma sendSMS_configured:
  "apiKey (config env) \<noteq> [] \<Longrightarrow>
   snd (sendSMS env to msg sender w)
     = w\<lparr>outbox := outbox w @ [\<lparr>req_sender = finalSenderId (config env) sender,
                                  req_message = msg,
                                  req_recipients = [formattedPhone to]\<rparr>]\<rparr>
   \<and> isl (fst (sendSMS env to msg sender w))
       = (gateway (backend env) (length (outbox w))
            \<lparr>req_sender = finalSenderId (config env) sender, req_message = msg,
             req_recipients = [formattedPhone to]\<rparr> \<noteq> None)"
  by (auto simp: sendSMS_def Let_def split: option.splits)

lemma sendSMS_keeps:
  "payments (snd (sendSMS env to msg sender w)) = payments w
   \<and> customers (snd (sendSMS env to msg sender w)) = customers w
   \<and> alerts (snd (sendSMS env to msg sender w)) = alerts w
   \<and> formError (snd (sendSMS env to msg sender w)) = formError w
   \<and> result (snd (sendSMS env to msg sender w)) = result w
   \<and> saved (snd (sendSMS env to msg sender w)) = saved w
   \<and> closed (snd (sendSMS env to msg sender w)) = closed w"
  by (simp add: sendSMS_def Let_def split: option.splits)

lemma sendBulkSMS_request:
  "apiKey (config env) \<noteq> [] \<Longrightarrow>
   outbox (snd (sendBulkSMS env recipients msg sender w))
     = outbox w @ [\<lparr>req_sender = finalSenderId (config env) sender, req_message = msg,
                      req_recipients = map formattedPhone recipients\<rparr>]"
  by (simp add: sendBulkSMS_def Let_def split: option.splits)


section \<open>The payment handler\<close>

lemma paymentNotifications_keeps:
  "payments (snd (paymentNotifications env c fd w)) = payments w
   \<and> customers (snd (paymentNotifications env c fd w)) = customers w
   \<and> alerts (snd (paymentNotifications env c fd w)) = alerts w
   \<and> formError (snd (paymentNotifications env c fd w)) = formError w
   \<and> saved (snd (paymentNotifications env c fd w)) = saved w
   \<and> closed (snd (paymentNotifications env c fd w)) = closed w"
proof -
  let ?r = "sendPaymentConfirmationSMS env c (f_amount fd * f_months_paid fd) (newExpiry env c fd) w"
  obtain r1 w1 where r: "?r = (r1, w1)" by (cases ?r)
  have k1: "payments w1 = payments w \<and> customers w1 = customers w \<and> alerts w1 = alerts w
            \<and> formError w1 = formError w \<and> saved w1 = saved w \<and> closed w1 = closed w"
    using r sendSMS_keeps [of env "c_phone c" _ "map_option v_name (vendor env)" w]
    by (simp add: sendPaymentConfirmationSMS_def Let_def) (metis snd_conv)
  show ?thesis
  proof (cases r1)
    case (Inl e)
    then show ?thesis using r k1 by (simp add: paymentNotifications_def)
  next
    case (Inr u)
    then show ?thesis
      using r k1 sendSMS_keeps [of env "c_phone c" _ "map_option v_name (vendor env)" w1]
      by (simp add: paymentNotifications_def sendServiceActivationSMS_def Let_def)
  qed
qed

lemma handleSubmitPayment_committed:
  assumes "insertPaymentError (backend env) (paymentData env c fd) = None"
    and "updateCustomersError (backend env) [c_id c] = None"
  shows "payments (handleSubmitPayment env c fd w) = payments w @ [paymentData env c fd]
    \<and> customers (handleSubmitPayment env c fd w) = map (extendCustomer env c fd) (customers w)
    \<and> formError (handleSubmitPayment env c fd w) = []
    \<and> saved (handleSubmitPayment env c fd w) \<and> closed (handleSubmitPayment env c fd w)
    \<and> alerts (handleSubmitPayment env c fd w)
        = (if isl (fst (paymentNotifications env c fd
                     (w\<lparr>formError := [], payments := payments w @ [paymentData env c fd],
                        customers := map (extendCustomer env c fd) (customers w)\<rparr>)))
           then alerts w @ [ascii ''Payment processed successfully, but SMS notification failed to send.'']
           else alerts w)"
proof -
  let ?w2 = "w\<lparr>formError := [], payments := payments w @ [paymentData env c fd],
                customers := map (extendCustomer env c fd) (customers w)\<rparr>"
  obtain r w3 where r: "paymentNotifications env c fd ?w2 = (r, w3)"
    by (cases "paymentNotifications env c fd ?w2")
  have k: "payments w3 = payments ?w2 \<and> customers w3 = customers ?w2 \<and> alerts w3 = alerts ?w2
           \<and> formError w3 = formError ?w2"
    using paymentNotifications_keeps [of env c fd ?w2] r by simp
  show ?thesis
    using assms r k by (cases r) (simp_all add: handleSubmitPayment_def Let_def ascii_def)
qed

lemma handleSubmitPayment_inserted:
  assumes "insertPaymentError (backend env) (paymentData env c fd) = None"
  shows "payments (handleSubmitPayment env c fd w) = payments w @ [paymentData env c fd]"
proof (cases "updateCustomersError (backend env) [c_id c]")
  case None
  then show ?thesis using assms handleSubmitPayment_committed by simp
next
  case (Some m)
  then show ?thesis using assms by (simp add: handleSubmitPayment_def Let_def)
qed

lemma paymentNotifications_outbox:
  assumes "apiKey (config env) \<noteq> []"
  shows "outbox (snd (paymentNotifications env c fd w))
     = outbox w @ [confirmationRequest env c fd]
       @ (if wasExpired env c
             \<and> gateway (backend env) (length (outbox w)) (confirmationRequest env c fd) = None
          then [activationRequest env c fd] else [])"
  using assms
  by (simp add: paymentNotifications_def sendPaymentConfirmationSMS_def
      sendServiceActivationSMS_def sendSMS_def Let_def confirmationRequest_def
      activationRequest_def split: option.splits)

lemma handleSubmitPayment_outbox:
  assumes "insertPaymentError (backend env) (paymentData env c fd) = None"
    and "updateCustomersError (backend env) [c_id c] = None"
  shows "outbox (handleSubmitPayment env c fd w)
     = outbox (snd (paymentNotifications env c fd
                     (w\<lparr>formError := [], payments := payments w @ [paymentData env c fd],
                        customers := map (extendCustomer env c fd) (customers w)\<rparr>)))"
  using assms
  by (simp add: handleSubmitPayment_def Let_def split: prod.splits sum.splits)


section \<open>The customer handler\<close>

lemma handleSubmitCustomer_committed:
  assumes "insertCustomerError (backend env) (customerData env fd) = None"
  shows "customers (handleSubmitCustomer env None fd w)
       = customers w
         @ [(customerData env fd)\<lparr>c_id := Some (newCustomerId (backend env) (customers w))\<rparr>]
    \<and> payments (handleSubmitCustomer env None fd w) = payments w
    \<and> formError (handleSubmitCustomer env None fd w) = []
    \<and> saved (handleSubmitCustomer env None fd w) \<and> closed (handleSubmitCustomer env None fd w)
    \<and> alerts (handleSubmitCustomer env None fd w)
        = (if isl (fst (sendWelcomeMessageSMS env (customerData env fd) (expiryDate env fd)
                     (w\<lparr>formError := [],
                        customers := customers w
                          @ [(customerData env fd)
                               \<lparr>c_id := Some (newCustomerId (backend env) (customers w))\<rparr>]\<rparr>)))
           then alerts w @ [ascii ''Customer created successfully, but welcome SMS failed to send.'']
           else alerts w)"
proof -
  let ?w1 = "w\<lparr>formError := [],
               customers := customers w
                 @ [(customerData env fd)
                      \<lparr>c_id := Some (newCustomerId (backend env) (customers w))\<rparr>]\<rparr>"
  let ?s = "sendWelcomeMessageSMS env (customerData env fd) (expiryDate env fd) ?w1"
  obtain r w2 where r: "?s = (r, w2)" by (cases ?s)
  have "w2 = snd (sendSMS env (c_phone (customerData env fd))
                    (templateWelcome (host env) (c_name (customerData env fd)) (expiryDate env fd)
                       (vendorData (vendor env)))
                    (map_option v_name (vendor env)) ?w1)"
    using r by (simp add: sendWelcomeMessageSMS_def Let_def)
  then have k: "payments w2 = payments ?w1 \<and> customers w2 = customers ?w1
      \<and> alerts w2 = alerts ?w1 \<and> formError w2 = formError ?w1"
    using sendSMS_keeps by simp
  show ?thesis
    using assms r k by (cases r) (simp_all add: handleSubmitCustomer_def Let_def ascii_def)
qed


section \<open>Printed amounts\<close>

lemma digit_inj: "a < 10 \<Longrightarrow> b < 10 \<Longrightarrow> digit a = digit b \<Longrightarrow> a = b"
proof -
  assume a: "a < 10" and b: "b < 10" and e: "digit a = digit b"
  have d: "distinct ''0123456789''" by simp
  have "''0123456789'' ! a = ''0123456789'' ! b" using a b e by (simp add: digit_def)
  then show "a = b" using d a b by (simp add: nth_eq_iff_index_eq)
qed

lemma showNat_small: "n < 10 \<Longrightarrow> showNat n = [digit n]"
  by (subst showNat.simps) simp

lemma showNat_large: "\<not> n < 10 \<Longrightarrow> showNat n = showNat (n div 10) @ [digit (n mod 10)]"
  by (subst showNat.simps) simp

lemma showNat_not_Nil: "showNat n \<noteq> []"
proof (cases "n < 10")
  case True
  then show ?thesis using showNat_small [of n] by simp
next
  case False
  then show ?thesis using showNat_large [of n] by simp
qed

lemma showNat_length_large: "\<not> n < 10 \<Longrightarrow> 2 \<le> length (showNat n)"
proof -
  assume "\<not> n < 10"
  then have "showNat n = showNat (n div 10) @ [digit (n mod 10)]" by (rule showNat_large)
  moreover have "1 \<le> length (showNat (n div 10))"
    using showNat_not_Nil [of "n div 10"] by (cases "showNat (n div 10)") simp_all
  ultimately show ?thesis by simp
qed

lemma showNat_inj: "showNat a = showNat b \<Longrightarrow> a = b"
proof (induction a arbitrary: b rule: showNat.induct)
  case (1 n)
  show ?case
  proof (cases "n < 10")
    case True
    then have n: "showNat n = [digit n]" by (rule showNat_small)
    have "b < 10"
    proof (rule ccontr)
      assume "\<not> b < 10"
      then have "2 \<le> length (showNat b)" by (rule showNat_length_large)
      moreover have "length (showNat b) = 1" using "1.prems" n by (metis length_Cons list.size(3) One_nat_def)
      ultimately show False by simp
    qed
    then have "showNat b = [digit b]" by (rule showNat_small)
    then have "[digit n] = [digit b]" using "1.prems" n by (simp only:)
    then have "digit n = digit b" by simp
    then show ?thesis using True \<open>b < 10\<close> digit_inj by blast
  next
    case False
    then have n: "showNat n = showNat (n div 10) @ [digit (n mod 10)]"
      by (rule showNat_large)
    have nb: "\<not> b < 10"
    proof
      assume "b < 10"
      then have "showNat b = [digit b]" by (rule showNat_small)
      then have "length (showNat n) = 1" using "1.prems" by (metis length_Cons list.size(3) One_nat_def)
      moreover have "2 \<le> length (showNat n)" using False by (rule showNat_length_large)
      ultimately show False by simp
    qed
    then have b: "showNat b = showNat (b div 10) @ [digit (b mod 10)]"
      by (rule showNat_large)
    have "showNat (n div 10) @ [digit (n mod 10)] = showNat (b div 10) @ [digit (b mod 10)]"
      using "1.prems" n b by (simp only:)
    then have h: "showNat (n div 10) = showNat (b div 10)" and d: "digit (n mod 10) = digit (b mod 10)"
      by simp_all
    have "n div 10 = b div 10" using "1.IH" [OF False h] .
    moreover have "n mod 10 = b mod 10" using d digit_inj [of "n mod 10" "b mod 10"] by simp
    ultimately show ?thesis by (metis div_mult_mod_eq)
  qed
qed

lemma mod_100_digits: "(x::nat) mod 100 = x mod 100 div 10 * 10 + x mod 10"
proof -
  have "x mod 100 mod 10 = x mod 10" by (simp add: mod_mod_cancel)
  moreover have "x mod 100 div 10 * 10 + x mod 100 mod 10 = x mod 100" by (rule div_mult_mod_eq)
  ultimately show ?thesis by simp
qed

lemma toFixed2_inj: "toFixed2 a = toFixed2 b \<Longrightarrow> a = b"
proof -
  assume e: "toFixed2 a = toFixed2 b"
  have "showNat (a div 100) @ [CHR ''.'', digit (a mod 100 div 10), digit (a mod 10)]
      = showNat (b div 100) @ [CHR ''.'', digit (b mod 100 div 10), digit (b mod 10)]"
    using e by (simp only: toFixed2_def append_Cons append_Nil)
  then have s: "showNat (a div 100) = showNat (b div 100)
      \<and> [CHR ''.'', digit (a mod 100 div 10), digit (a mod 10)]
        = [CHR ''.'', digit (b mod 100 div 10), digit (b mod 10)]"
    by (subst (asm) append_eq_append_conv) simp_all
  then have q: "a div 100 = b div 100" using showNat_inj by blast
  have d1: "digit (a mod 100 div 10) = digit (b mod 100 div 10)"
    and d2: "digit (a mod 10) = digit (b mod 10)"
    using s by simp_all
  have "a mod 100 div 10 < 10" and "b mod 100 div 10 < 10" by simp_all
  then have r1: "a mod 100 div 10 = b mod 100 div 10" using d1 by (rule digit_inj)
  have "a mod 10 < 10" and "b mod 10 < 10" by simp_all
  then have r2: "a mod 10 = b mod 10" using d2 by (rule digit_inj)
  have "a mod 100 = b mod 100"
    using mod_100_digits [of a] mod_100_digits [of b] r1 r2 by (simp only:)
  then show "a = b" using q by (metis div_mult_mod_eq)
qed


section \<open>Facts of the example session\<close>

lemma utc_civil_20442: "civilFromDays 20442 = (2025, 12, 20)"
  by code_simp

lemma utc_fields_1766188800000:
  "getDate utcHost 1766188800000 = 20 \<and> getMonth utcHost 1766188800000 = 11
   \<and> getFullYear utcHost 1766188800000 = 2025"
  by (simp add: utcHost_def utcDay_def utcMonth_def utcYear_def msPerDay_def utc_civil_20442)

lemma utc_ordinal_1765443600000: "toOrdinalDate utcHost 1765443600000 = ascii ''11th December, 2025''"
  by (simp add: toOrdinalDate_def utc_fields_1765443600000 monthLong_def showInt_def
      showNat.simps digit_def
      ascii_def charCode_def)

lemma utc_ordinal_1766188800000: "toOrdinalDate utcHost 1766188800000 = ascii ''20th December, 2025''"
  by (simp add: toOrdinalDate_def utc_fields_1766188800000 monthLong_def showInt_def
      showNat.simps digit_def
      ascii_def charCode_def)

lemma utcAddMonths_now_3: "utcAddMonths 1762851600000 3 = 1770800400000"
  by code_simp

lemma utc_civil_20495: "civilFromDays 20495 = (2026, 2, 11)"
  by code_simp

lemma utc_ordinal_1770800400000: "toOrdinalDate utcHost 1770800400000 = ascii ''11th February, 2026''"
  by (simp add: toOrdinalDate_def utcHost_def utcDay_def utcMonth_def utcYear_def msPerDay_def
      utc_civil_20495 monthLong_def showInt_def showNat.simps digit_def
      ascii_def charCode_def)

lemma utc_iso_1765443600000: "utcISOString 1765443600000 = ''2025-12-11T09:00:00.000Z''"
  by (simp add: utcISOString_def utcYear_def utcMonth_def utcDay_def msPerDay_def
      utc_civil_20433 pad2_def pad3_def pad4_def digit_def)

lemma utc_civil_20403: "civilFromDays 20403 = (2025, 11, 11)"
  by code_simp

lemma utc_iso_1762851600000: "utcISOString 1762851600000 = ''2025-11-11T09:00:00.000Z''"
  by (simp add: utcISOString_def utcYear_def utcMonth_def utcDay_def msPerDay_def
      utc_civil_20403 pad2_def pad3_def pad4_def digit_def)

lemma isoDatePart_1765443600000: "isoDatePart (toISOString utcHost 1765443600000) = ascii ''2025-12-11''"
  by (simp add: utcHost_def utc_iso_1765443600000 isoDatePart_def
      ascii_def charCode_def)

lemma firstName_ama: "firstName utcHost (c_name ama) = ascii ''Ama''"
  by (simp add: ama_def firstName_def trim_def isSpace_def splitWhitespace.simps charAt_def
      substringFrom_def utcHost_toUpperCase latinUpperCase_def upperCaseUnit_def ascii_def
      charCode_def)

lemma firstName_kofi: "firstName utcHost (c_name kofi) = ascii ''Kofi''"
  by (simp add: kofi_def firstName_def trim_def isSpace_def splitWhitespace.simps charAt_def
      substringFrom_def utcHost_toUpperCase latinUpperCase_def upperCaseUnit_def ascii_def
      charCode_def)

lemma formattedPhone_ama: "formattedPhone (c_phone ama) = ascii ''233241234567''"
  by (simp add: ama_def formattedPhone_def removeWhitespace_def isSpace_def startsWith_def
      substringFrom_def
      ascii_def charCode_def)

lemma formattedPhone_kofi: "formattedPhone (c_phone kofi) = ascii ''233201112222''"
  by (simp add: kofi_def formattedPhone_def removeWhitespace_def isSpace_def startsWith_def
      substringFrom_def
      ascii_def charCode_def)

lemma toFixed2_5000: "toFixed2 5000 = ''50.00''"
  by (simp add: toFixed2_def showNat.simps digit_def)

lemma toFixed2_15000: "toFixed2 15000 = ''150.00''"
  by (simp add: toFixed2_def showNat.simps digit_def)

lemma newExpiry_ama:
  "host env = utcHost \<Longrightarrow> now env = 1762851600000 \<Longrightarrow>
   newExpiry env ama onePayment = 1765443600000 \<and> wasExpired env ama"
  by (simp add: newExpiry_def startDate_def wasExpired_def utcHost_def ama_def onePayment_def
      utcNewDate_ama utcAddMonths_now del: One_nat_def)

lemma newExpiry_kofi:
  "host env = utcHost \<Longrightarrow> now env = 1762851600000 \<Longrightarrow>
   newExpiry env kofi onePayment = 1766188800000 \<and> \<not> wasExpired env kofi"
  by (simp add: newExpiry_def startDate_def wasExpired_def utcHost_def kofi_def onePayment_def
      utcNewDate_kofi utcAddMonths_kofi del: One_nat_def)

lemma newExpiry_ama_3:
  "host env = utcHost \<Longrightarrow> now env = 1762851600000 \<Longrightarrow>
   newExpiry env ama threeMonths = 1770800400000"
  by (simp add: newExpiry_def startDate_def utcHost_def ama_def threeMonths_def onePayment_def
      utcNewDate_ama utcAddMonths_now_3)

lemma confirmationRequest_ama:
  assumes "host env = utcHost" and "now env = 1762851600000" and "vendor env = None"
    and "senderId (config env) = ascii ''Qaretech''"
  shows "confirmationRequest env ama onePayment =
     \<lparr>req_sender = ascii ''Qaretech'',
      req_message = ascii ''Qaretech Innovative: '' @ [0x2705]
        @ ascii '' Payment GHC 50.00 received. Thanks, Ama! Your new expiry is 11th December, 2025. ''
        @ ascii ''Questions? Call 0241234567 or WhatsApp 0241234567.'',
      req_recipients = [ascii ''233241234567'']\<rparr>"
  using assms newExpiry_ama [of env]
  by (simp add: confirmationRequest_def finalSenderId_def templatePaymentConfirmation_def
      vendorData_def withSlogan_def orDefault_def optField_def firstName_ama formattedPhone_ama
      utc_ordinal_1765443600000 onePayment_def toFixed2_5000
      ascii_def charCode_def)

lemma activationRequest_ama:
  assumes "host env = utcHost" and "now env = 1762851600000" and "vendor env = None"
    and "senderId (config env) = ascii ''Qaretech''"
  shows "activationRequest env ama onePayment =
     \<lparr>req_sender = ascii ''Qaretech'',
      req_message = ascii ''Qaretech Innovative: '' @ [0xD83D, 0xDE80]
        @ ascii '' Service reactivated, Ama! You're online until 11th December, 2025. ''
        @ ascii ''Renew anytime via 0241234567 or WhatsApp 0241234567. Reply HELP for support.'',
      req_recipients = [ascii ''233241234567'']\<rparr>"
  using assms newExpiry_ama [of env]
  by (simp add: activationRequest_def finalSenderId_def templateActivation_def
      vendorData_def withSlogan_def orDefault_def optField_def firstName_ama formattedPhone_ama
      utc_ordinal_1765443600000
      ascii_def charCode_def)

lemma confirmationRequest_kofi:
  assumes "host env = utcHost" and "now env = 1762851600000" and "vendor env = None"
    and "senderId (config env) = ascii ''Qaretech''"
  shows "confirmationRequest env kofi onePayment =
     \<lparr>req_sender = ascii ''Qaretech'',
      req_message = ascii ''Qaretech Innovative: '' @ [0x2705]
        @ ascii '' Payment GHC 50.00 received. Thanks, Kofi! Your new expiry is 20th December, 2025. ''
        @ ascii ''Questions? Call 0241234567 or WhatsApp 0241234567.'',
      req_recipients = [ascii ''233201112222'']\<rparr>"
  using assms newExpiry_kofi [of env]
  by (simp add: confirmationRequest_def finalSenderId_def templatePaymentConfirmation_def
      vendorData_def withSlogan_def orDefault_def optField_def firstName_kofi formattedPhone_kofi
      utc_ordinal_1766188800000 onePayment_def toFixed2_5000
      ascii_def charCode_def)

lemma exampleEnv_fields:
  "host exampleEnv = utcHost \<and> now exampleEnv = 1762851600000 \<and> vendor exampleEnv = None
   \<and> senderId (config exampleEnv) = ascii ''Qaretech'' \<and> apiKey (config exampleEnv) = ascii ''key''
   \<and> backend exampleEnv = acceptingBackend"
  by (simp add: exampleEnv_def)

lemma rejectingEnv_fields:
  "host rejectingEnv = utcHost \<and> now rejectingEnv = 1762851600000 \<and> vendor rejectingEnv = None
   \<and> senderId (config rejectingEnv) = ascii ''Qaretech'' \<and> apiKey (config rejectingEnv) = ascii ''key''
   \<and> backend rejectingEnv
       = acceptingBackend\<lparr>gateway := (\<lambda>n r. Some (ascii ''Insufficient balance''))\<rparr>"
  by (simp add: rejectingEnv_def exampleEnv_def)

lemma paymentNotifications_rejected:
  "isl (fst (paymentNotifications rejectingEnv c fd w))"
  by (simp add: paymentNotifications_def sendPaymentConfirmationSMS_def sendSMS_def
      rejectingEnv_fields Let_def
      ascii_def charCode_def)

lemma sendWelcomeMessageSMS_rejected:
  "isl (fst (sendWelcomeMessageSMS rejectingEnv d e w))"
  by (simp add: sendWelcomeMessageSMS_def sendSMS_def rejectingEnv_fields Let_def
      ascii_def charCode_def)


section \<open>Notifications of a payment\<close>

text \<open>
  C4, as amended. When the payment row is inserted and the customer row is updated, and
  the SMS service is configured, the handler posts the Payment Confirmation, and after it
  the Activation notice exactly when the customer was expired and the Payment
  Confirmation send did not fail. The flag is the comparison of the customer's expiry
  date, as the handler was given it before the update, with the clock.
\<close>

theorem payment_notifications_sent:
  "insertPaymentError (backend env) (paymentData env c fd) = None
   \<and> updateCustomersError (backend env) [c_id c] = None
   \<and> apiKey (config env) \<noteq> [] \<longrightarrow>
     outbox (handleSubmitPayment env c fd w)
       = outbox w @ [confirmationRequest env c fd]
         @ (if wasExpired env c
               \<and> gateway (backend env) (length (outbox w)) (confirmationRequest env c fd) = None
            then [activationRequest env c fd] else [])
     \<and> wasExpired env c = (newDate (host env) (c_expiry_date c) < now env)"
  using paymentNotifications_outbox [of env c fd] handleSubmitPayment_outbox [of env c fd w]
  by (simp add: wasExpired_def)

text \<open>
  One month paid by the customer expired ten days ago: both messages go out. One month
  paid by the customer not yet expired: the confirmation alone.
\<close>

theorem payment_notifications_sent_witness:
  "wasExpired exampleEnv ama
   \<and> outbox (handleSubmitPayment exampleEnv ama onePayment initialWorld)
     = [\<lparr>req_sender = ascii ''Qaretech'',
         req_message = ascii ''Qaretech Innovative: '' @ [0x2705]
           @ ascii '' Payment GHC 50.00 received. Thanks, Ama! Your new expiry is 11th December, 2025. ''
           @ ascii ''Questions? Call 0241234567 or WhatsApp 0241234567.'',
         req_recipients = [ascii ''233241234567'']\<rparr>,
        \<lparr>req_sender = ascii ''Qaretech'',
         req_message = ascii ''Qaretech Innovative: '' @ [0xD83D, 0xDE80]
           @ ascii '' Service reactivated, Ama! You're online until 11th December, 2025. ''
           @ ascii ''Renew anytime via 0241234567 or WhatsApp 0241234567. Reply HELP for support.'',
         req_recipients = [ascii ''233241234567'']\<rparr>]
   \<and> \<not> wasExpired exampleEnv kofi
   \<and> outbox (handleSubmitPayment exampleEnv kofi onePayment initialWorld)
     = [\<lparr>req_sender = ascii ''Qaretech'',
         req_message = ascii ''Qaretech Innovative: '' @ [0x2705]
           @ ascii '' Payment GHC 50.00 received. Thanks, Kofi! Your new expiry is 20th December, 2025. ''
           @ ascii ''Questions? Call 0241234567 or WhatsApp 0241234567.'',
         req_recipients = [ascii ''233201112222'']\<rparr>]"
  using payment_notifications_sent [of exampleEnv ama onePayment initialWorld]
    payment_notifications_sent [of exampleEnv kofi onePayment initialWorld]
    confirmationRequest_ama [of exampleEnv] activationRequest_ama [of exampleEnv]
    confirmationRequest_kofi [of exampleEnv]
    newExpiry_ama [of exampleEnv] newExpiry_kofi [of exampleEnv]
  by (simp add: exampleEnv_fields acceptingBackend_def initialWorld_def
      ascii_def charCode_def)

text \<open>
  C4, as stated, fails where the gateway refuses the Payment Confirmation: the payment
  of the expired customer is recorded, the flag is true, and no Activation notice is
  posted, because the failed first send leaves the block that holds both sends.
\<close>

theorem activation_skipped_when_confirmation_fails:
  "wasExpired rejectingEnv ama
   \<and> payments (handleSubmitPayment rejectingEnv ama onePayment initialWorld)
     = [paymentData rejectingEnv ama onePayment]
   \<and> outbox (handleSubmitPayment rejectingEnv ama onePayment initialWorld)
     = [\<lparr>req_sender = ascii ''Qaretech'',
         req_message = ascii ''Qaretech Innovative: '' @ [0x2705]
           @ ascii '' Payment GHC 50.00 received. Thanks, Ama! Your new expiry is 11th December, 2025. ''
           @ ascii ''Questions? Call 0241234567 or WhatsApp 0241234567.'',
         req_recipients = [ascii ''233241234567'']\<rparr>]
   \<and> activationRequest rejectingEnv ama onePayment
       \<notin> set (outbox (handleSubmitPayment rejectingEnv ama onePayment initialWorld))"
proof -
  have i: "insertPaymentError (backend rejectingEnv) (paymentData rejectingEnv ama onePayment) = None"
    and u: "updateCustomersError (backend rejectingEnv) [c_id ama] = None"
    and k: "apiKey (config rejectingEnv) \<noteq> []"
    by (simp_all add: rejectingEnv_fields acceptingBackend_def ascii_def)
  have w: "wasExpired rejectingEnv ama"
    using newExpiry_ama [of rejectingEnv] by (simp add: rejectingEnv_fields)
  have p: "payments (handleSubmitPayment rejectingEnv ama onePayment initialWorld)
      = [paymentData rejectingEnv ama onePayment]"
    using handleSubmitPayment_inserted [OF i, of initialWorld] by (simp add: initialWorld_def)
  have c: "confirmationRequest rejectingEnv ama onePayment =
     \<lparr>req_sender = ascii ''Qaretech'',
      req_message = ascii ''Qaretech Innovative: '' @ [0x2705]
        @ ascii '' Payment GHC 50.00 received. Thanks, Ama! Your new expiry is 11th December, 2025. ''
        @ ascii ''Questions? Call 0241234567 or WhatsApp 0241234567.'',
      req_recipients = [ascii ''233241234567'']\<rparr>"
    by (rule confirmationRequest_ama) (simp_all add: rejectingEnv_fields)
  have a: "activationRequest rejectingEnv ama onePayment =
     \<lparr>req_sender = ascii ''Qaretech'',
      req_message = ascii ''Qaretech Innovative: '' @ [0xD83D, 0xDE80]
        @ ascii '' Service reactivated, Ama! You're online until 11th December, 2025. ''
        @ ascii ''Renew anytime via 0241234567 or WhatsApp 0241234567. Reply HELP for support.'',
      req_recipients = [ascii ''233241234567'']\<rparr>"
    by (rule activationRequest_ama) (simp_all add: rejectingEnv_fields)
  have "outbox (handleSubmitPayment rejectingEnv ama onePayment initialWorld)
      = [confirmationRequest rejectingEnv ama onePayment]"
    using handleSubmitPayment_outbox [OF i u, of initialWorld]
      paymentNotifications_outbox [OF k, of ama onePayment]
    by (simp add: rejectingEnv_fields initialWorld_def)
  then show ?thesis using w p c a by simp
qed


section \<open>Failure isolation\<close>

text \<open>
  C6. Whatever the SMS service does, a payment whose two writes succeed stays recorded:
  the payment row is in the table, the customer row is extended, the form shows no
  error and the modal saves and closes; a failed notification adds one alert and nothing
  else. The same holds for a new customer and the welcome message.
\<close>

theorem sms_failure_keeps_mutation:
  "(insertPaymentError (backend env) (paymentData env c fd) = None
    \<and> updateCustomersError (backend env) [c_id c] = None \<longrightarrow>
      payments (handleSubmitPayment env c fd w) = payments w @ [paymentData env c fd]
      \<and> customers (handleSubmitPayment env c fd w) = map (extendCustomer env c fd) (customers w)
      \<and> formError (handleSubmitPayment env c fd w) = []
      \<and> saved (handleSubmitPayment env c fd w) \<and> closed (handleSubmitPayment env c fd w)
      \<and> alerts (handleSubmitPayment env c fd w)
          = (if isl (fst (paymentNotifications env c fd
                       (w\<lparr>formError := [], payments := payments w @ [paymentData env c fd],
                          customers := map (extendCustomer env c fd) (customers w)\<rparr>)))
             then alerts w
                  @ [ascii ''Payment processed successfully, but SMS notification failed to send.'']
             else alerts w))
   \<and> (insertCustomerError (backend env) (customerData env cf) = None \<longrightarrow>
      customers (handleSubmitCustomer env None cf w)
        = customers w
          @ [(customerData env cf)\<lparr>c_id := Some (newCustomerId (backend env) (customers w))\<rparr>]
      \<and> payments (handleSubmitCustomer env None cf w) = payments w
      \<and> formError (handleSubmitCustomer env None cf w) = []
      \<and> saved (handleSubmitCustomer env None cf w) \<and> closed (handleSubmitCustomer env None cf w)
      \<and> alerts (handleSubmitCustomer env None cf w)
          = (if isl (fst (sendWelcomeMessageSMS env (customerData env cf) (expiryDate env cf)
                       (w\<lparr>formError := [],
                          customers := customers w
                            @ [(customerData env cf)
                                 \<lparr>c_id := Some (newCustomerId (backend env) (customers w))\<rparr>]\<rparr>)))
             then alerts w @ [ascii ''Customer created successfully, but welcome SMS failed to send.'']
             else alerts w))"
  using handleSubmitPayment_committed [of env c fd w] handleSubmitCustomer_committed [of env cf w]
  by blast

text \<open>
  A payment and a new customer under the gateway that refuses every request.
\<close>

theorem sms_failure_keeps_mutation_witness:
  "payments (handleSubmitPayment rejectingEnv ama onePayment initialWorld)
     = [paymentData rejectingEnv ama onePayment]
   \<and> map c_expiry_date (customers (handleSubmitPayment rejectingEnv ama onePayment initialWorld))
     = [ascii ''2025-12-11'', ascii ''2025-11-20'']
   \<and> formError (handleSubmitPayment rejectingEnv ama onePayment initialWorld) = []
   \<and> saved (handleSubmitPayment rejectingEnv ama onePayment initialWorld)
   \<and> alerts (handleSubmitPayment rejectingEnv ama onePayment initialWorld)
     = [ascii ''Payment processed successfully, but SMS notification failed to send.'']
   \<and> map c_name (customers (handleSubmitCustomer rejectingEnv None abenaForm initialWorld))
     = [ascii ''ama serwaa'', ascii ''Kofi Mensah'', ascii ''Abena Owusu'']
   \<and> formError (handleSubmitCustomer rejectingEnv None abenaForm initialWorld) = []
   \<and> saved (handleSubmitCustomer rejectingEnv None abenaForm initialWorld)
   \<and> alerts (handleSubmitCustomer rejectingEnv None abenaForm initialWorld)
     = [ascii ''Customer created successfully, but welcome SMS failed to send.'']"
  using sms_failure_keeps_mutation [of rejectingEnv ama onePayment initialWorld abenaForm]
    newExpiry_ama [of rejectingEnv]
  by (simp add: rejectingEnv_fields acceptingBackend_def initialWorld_def
      paymentNotifications_rejected sendWelcomeMessageSMS_rejected extendCustomer_def
      isoDatePart_1765443600000 ama_def kofi_def customerData_def abenaForm_def
      ascii_def charCode_def)


section \<open>Stored amount and stated total\<close>

text \<open>
  C10. The payment row stores the amount per month of the form, and the months beside
  it; the Payment Confirmation states the amount times the months, with two decimals.
  For more than one month and a positive amount the two figures differ, also as
  printed.
\<close>

theorem payment_row_amount_and_sms_total:
  "(insertPaymentError (backend env) (paymentData env c fd) = None \<longrightarrow>
      payments (handleSubmitPayment env c fd w) = payments w @ [paymentData env c fd])
   \<and> p_amount (paymentData env c fd) = f_amount fd
   \<and> p_months_paid (paymentData env c fd) = f_months_paid fd
   \<and> (insertPaymentError (backend env) (paymentData env c fd) = None
       \<and> updateCustomersError (backend env) [c_id c] = None
       \<and> apiKey (config env) \<noteq> [] \<longrightarrow>
         req_message (outbox (handleSubmitPayment env c fd w) ! length (outbox w))
           = templatePaymentConfirmation (host env) (c_name c) (f_amount fd * f_months_paid fd)
               (newExpiry env c fd) (vendorData (vendor env)))
   \<and> templatePaymentConfirmation h n amt e v
       = withSlogan v
           (orDefault (optField v vd_name) (ascii ''Qaretech Innovative'') @ ascii '': ''
            @ [0x2705] @ ascii '' Payment GHC '' @ ascii (toFixed2 amt)
            @ ascii '' received. Thanks, '' @ firstName h n @ ascii ''! Your new expiry is ''
            @ toOrdinalDate h e @ ascii ''. Questions? Call ''
            @ orDefault (optField v vd_contact_phone) (ascii ''0241234567'') @ ascii '' or WhatsApp ''
            @ orDefault (optField v vd_contact_phone) (ascii ''0241234567'') @ ascii ''.'')
   \<and> (1 < f_months_paid fd \<and> 0 < f_amount fd \<longrightarrow>
         f_amount fd * f_months_paid fd \<noteq> p_amount (paymentData env c fd)
         \<and> toFixed2 (f_amount fd * f_months_paid fd) \<noteq> toFixed2 (p_amount (paymentData env c fd)))"
proof -
  have a: "insertPaymentError (backend env) (paymentData env c fd) = None \<longrightarrow>
      payments (handleSubmitPayment env c fd w) = payments w @ [paymentData env c fd]"
    using handleSubmitPayment_inserted by simp
  have b: "p_amount (paymentData env c fd) = f_amount fd
      \<and> p_months_paid (paymentData env c fd) = f_months_paid fd"
    by (simp add: paymentData_def)
  have c: "insertPaymentError (backend env) (paymentData env c fd) = None
       \<and> updateCustomersError (backend env) [c_id c] = None
       \<and> apiKey (config env) \<noteq> [] \<longrightarrow>
         req_message (outbox (handleSubmitPayment env c fd w) ! length (outbox w))
           = templatePaymentConfirmation (host env) (c_name c) (f_amount fd * f_months_paid fd)
               (newExpiry env c fd) (vendorData (vendor env))"
    using paymentNotifications_outbox [of env c fd] handleSubmitPayment_outbox [of env c fd w]
    by (simp add: confirmationRequest_def)
  have d: "templatePaymentConfirmation h n amt e v
       = withSlogan v
           (orDefault (optField v vd_name) (ascii ''Qaretech Innovative'') @ ascii '': ''
            @ [0x2705] @ ascii '' Payment GHC '' @ ascii (toFixed2 amt)
            @ ascii '' received. Thanks, '' @ firstName h n @ ascii ''! Your new expiry is ''
            @ toOrdinalDate h e @ ascii ''. Questions? Call ''
            @ orDefault (optField v vd_contact_phone) (ascii ''0241234567'') @ ascii '' or WhatsApp ''
            @ orDefault (optField v vd_contact_phone) (ascii ''0241234567'') @ ascii ''.'')"
    by (simp add: templatePaymentConfirmation_def Let_def)
  have e: "1 < f_months_paid fd \<and> 0 < f_amount fd \<longrightarrow>
         f_amount fd * f_months_paid fd \<noteq> p_amount (paymentData env c fd)
         \<and> toFixed2 (f_amount fd * f_months_paid fd) \<noteq> toFixed2 (p_amount (paymentData env c fd))"
  proof
    assume h: "1 < f_months_paid fd \<and> 0 < f_amount fd"
    then have "f_amount fd * f_months_paid fd \<noteq> f_amount fd" by simp
    then show "f_amount fd * f_months_paid fd \<noteq> p_amount (paymentData env c fd)
         \<and> toFixed2 (f_amount fd * f_months_paid fd) \<noteq> toFixed2 (p_amount (paymentData env c fd))"
      using b toFixed2_inj by metis
  qed
  show ?thesis using a b c d e by blast
qed

text \<open>
  Three months at GHC 50.00: the row holds 50.00, the message says 150.00.
\<close>

theorem payment_row_amount_and_sms_total_witness:
  "payments (handleSubmitPayment exampleEnv ama threeMonths initialWorld)
     = [paymentData exampleEnv ama threeMonths]
   \<and> p_amount (paymentData exampleEnv ama threeMonths) = 5000
   \<and> p_months_paid (paymentData exampleEnv ama threeMonths) = 3
   \<and> req_message (outbox (handleSubmitPayment exampleEnv ama threeMonths initialWorld) ! 0)
     = ascii ''Qaretech Innovative: '' @ [0x2705]
       @ ascii '' Payment GHC 150.00 received. Thanks, Ama! Your new expiry is 11th February, 2026. ''
       @ ascii ''Questions? Call 0241234567 or WhatsApp 0241234567.''
   \<and> toFixed2 (5000 * 3) \<noteq> toFixed2 5000"
  using payment_row_amount_and_sms_total
      [of exampleEnv ama threeMonths initialWorld utcHost "c_name ama" 15000 1770800400000 None]
    newExpiry_ama_3 [of exampleEnv]
  by (simp add: exampleEnv_fields acceptingBackend_def initialWorld_def threeMonths_def
      onePayment_def vendorData_def withSlogan_def orDefault_def optField_def firstName_ama
      utc_ordinal_1770800400000 toFixed2_15000 toFixed2_5000
      ascii_def charCode_def)


section \<open>Bulk sends\<close>

lemma sendEach_keeps:
  "customers (snd (sendEach env fd cs acc w)) = customers w
   \<and> payments (snd (sendEach env fd cs acc w)) = payments w
   \<and> result (snd (sendEach env fd cs acc w)) = result w"
proof (induction cs arbitrary: acc w)
  case Nil
  then show ?case by simp
next
  case (Cons c cs)
  obtain s f e where acc: "acc = (s, f, e)" by (cases acc)
  let ?r = "sendSMS env (c_phone c) (personalizedMessage env fd c) (map_option v_name (vendor env)) w"
  obtain r w1 where r: "?r = (r, w1)" by (cases ?r)
  have k: "customers w1 = customers w \<and> payments w1 = payments w \<and> result w1 = result w"
    using sendSMS_keeps [of env "c_phone c" "personalizedMessage env fd c"
        "map_option v_name (vendor env)" w] r
    by simp
  show ?case
    using acc r k Cons.IH by (cases r) simp_all
qed

lemma sendEach_counts:
  "sendEach env fd cs (s0, f0, e0) w = ((s, f, e), w') \<Longrightarrow>
   s + f = s0 + f0 + length cs \<and> f0 \<le> f \<and> length e = length e0 + (f - f0)"
proof (induction cs arbitrary: s0 f0 e0 w)
  case Nil
  then show ?case by simp
next
  case (Cons c cs)
  let ?r = "sendSMS env (c_phone c) (personalizedMessage env fd c) (map_option v_name (vendor env)) w"
  obtain r w1 where r: "?r = (r, w1)" by (cases ?r)
  show ?case
  proof (cases r)
    case (Inl m)
    then have "sendEach env fd cs (s0, f0 + 1, e0 @ [c_name c @ ascii '': '' @ m]) w1 = ((s, f, e), w')"
      using Cons.prems r by simp
    then have "s + f = s0 + (f0 + 1) + length cs \<and> f0 + 1 \<le> f
        \<and> length e = length (e0 @ [c_name c @ ascii '': '' @ m]) + (f - (f0 + 1))"
      by (rule Cons.IH)
    then show ?thesis by (simp, arith)
  next
    case (Inr u)
    then have "sendEach env fd cs (s0 + 1, f0, e0) w1 = ((s, f, e), w')"
      using Cons.prems r by simp
    then have "s + f = s0 + 1 + f0 + length cs \<and> f0 \<le> f \<and> length e = length e0 + (f - f0)"
      by (rule Cons.IH)
    then show ?thesis by simp
  qed
qed

lemma handleSubmitSMS_bulk_stamps_selected:
  assumes "1 < length (filter (\<lambda>c. c_id c \<in> set (map Some selected)) loaded)"
    and "updateCustomersError (backend env) (map Some selected) = None"
  shows "customers (handleSubmitSMS env loaded selected fd w)
     = map (\<lambda>row. if c_id row \<in> set (map Some selected)
                   then row\<lparr>c_last_reminder_sent := Some (toISOString (host env) (now env))\<rparr>
                   else row)
         (customers w)"
proof -
  let ?d = "filter (\<lambda>c. c_id c \<in> set (map Some selected)) loaded"
  obtain acc w1 where r: "sendEach env fd ?d (0, 0, []) (w\<lparr>result := None\<rparr>) = (acc, w1)"
    by (cases "sendEach env fd ?d (0, 0, []) (w\<lparr>result := None\<rparr>)")
  have "customers w1 = customers w"
    using sendEach_keeps [of env fd ?d "(0, 0, [])" "w\<lparr>result := None\<rparr>"] r by simp
  moreover have "selected \<noteq> []" using assms(1) by auto
  ultimately show ?thesis
    using assms r by (simp add: handleSubmitSMS_def stampReminder_def Let_def)
qed

lemma sendEach_errors:
  "sendEach env fd cs (s0, f0, e0) w = ((s, f, e), w') \<Longrightarrow>
   \<exists>new. e = e0 @ new
     \<and> (\<forall>x \<in> set new. \<exists>c \<in> set cs. \<exists>reason. x = c_name c @ ascii '': '' @ reason)"
proof (induction cs arbitrary: s0 f0 e0 w)
  case Nil
  then show ?case by simp
next
  case (Cons c cs)
  let ?r = "sendSMS env (c_phone c) (personalizedMessage env fd c) (map_option v_name (vendor env)) w"
  obtain r w1 where r: "?r = (r, w1)" by (cases ?r)
  show ?case
  proof (cases r)
    case (Inl m)
    then have "sendEach env fd cs (s0, f0 + 1, e0 @ [c_name c @ ascii '': '' @ m]) w1 = ((s, f, e), w')"
      using Cons.prems r by simp
    then obtain new where n: "e = (e0 @ [c_name c @ ascii '': '' @ m]) @ new"
      and a: "\<forall>x \<in> set new. \<exists>c \<in> set cs. \<exists>reason. x = c_name c @ ascii '': '' @ reason"
      using Cons.IH by blast
    have "e = e0 @ ((c_name c @ ascii '': '' @ m) # new)" using n by simp
    moreover have "\<forall>x \<in> set ((c_name c @ ascii '': '' @ m) # new).
        \<exists>c' \<in> set (c # cs). \<exists>reason. x = c_name c' @ ascii '': '' @ reason"
      using a by auto
    ultimately show ?thesis by blast
  next
    case (Inr u)
    then have "sendEach env fd cs (s0 + 1, f0, e0) w1 = ((s, f, e), w')"
      using Cons.prems r by simp
    then obtain new where n: "e = e0 @ new"
      and a: "\<forall>x \<in> set new. \<exists>c \<in> set cs. \<exists>reason. x = c_name c @ ascii '': '' @ reason"
      using Cons.IH by blast
    have "\<forall>x \<in> set new. \<exists>c' \<in> set (c # cs). \<exists>reason. x = c_name c' @ ascii '': '' @ reason"
      using a by auto
    then show ?thesis using n by blast
  qed
qed

lemma handleSubmitSMS_single_failure_not_stamped:
  assumes "filter (\<lambda>c. c_id c \<in> set (map Some selected)) loaded = [c]"
    and "isl (fst (sendSMS env (c_phone c) (personalizedMessage env fd c)
                     (map_option v_name (vendor env)) (w\<lparr>result := None\<rparr>)))"
  shows "customers (handleSubmitSMS env loaded selected fd w) = customers w"
proof -
  let ?r = "sendSMS env (c_phone c) (personalizedMessage env fd c)
              (map_option v_name (vendor env)) (w\<lparr>result := None\<rparr>)"
  obtain r w1 where r: "?r = (r, w1)" by (cases ?r)
  have k: "customers w1 = customers w"
    using sendSMS_keeps [of env "c_phone c" "personalizedMessage env fd c"
        "map_option v_name (vendor env)" "w\<lparr>result := None\<rparr>"] r
    by simp
  have "selected \<noteq> []" using assms(1) by auto
  then show ?thesis
    using assms r k by (cases r) (simp_all add: handleSubmitSMS_def Let_def)
qed

lemma handleQuickSMSReminder_stamps_after_success:
  assumes "customers (handleQuickSMSReminder env c w) \<noteq> customers w"
  shows "apiKey (config env) \<noteq> []
    \<and> length (outbox (handleQuickSMSReminder env c w)) = length (outbox w) + 1
    \<and> gateway (backend env) (length (outbox w))
          (last (outbox (handleQuickSMSReminder env c w))) = None"
  using assms
  by (auto simp: handleQuickSMSReminder_def sendSMS_def Let_def
      split: if_splits option.splits)

text \<open>
  C3. A bulk send should stamp the last reminder only on the customers whose send
  succeeded. The loop counts successes and failures and notes one error per failure
  under the customer's name, and a failure undoes nothing (lemmas above); but the update
  after the loop stamps every selected customer, where the send to one selected
  customer and the quick reminder stamp only after a send that returned. Three customers
  are selected and the gateway refuses the third request: the result reports 2 sent and
  1 failed, and all three rows carry the new stamp, the failed recipient's too.
\<close>

theorem bulk_failure_still_stamped:
  "result (handleSubmitSMS rejectThirdEnv [ama, kofi, abena] [ascii ''c1'', ascii ''c2'', ascii ''c3''] reminderForm
             (initialWorld\<lparr>customers := [ama, kofi, abena]\<rparr>))
     = Some (True, ascii ''Personalized SMS sent to 2 customer(s). 1 failed: ''
                   @ ascii ''Abena Owusu: Invalid phone number'')
   \<and> map req_recipients
        (outbox (handleSubmitSMS rejectThirdEnv [ama, kofi, abena] [ascii ''c1'', ascii ''c2'', ascii ''c3'']
                   reminderForm (initialWorld\<lparr>customers := [ama, kofi, abena]\<rparr>)))
     = [[ascii ''233241234567''], [ascii ''233201112222''], [ascii ''233501234567'']]
   \<and> map c_last_reminder_sent
        (customers (handleSubmitSMS rejectThirdEnv [ama, kofi, abena] [ascii ''c1'', ascii ''c2'', ascii ''c3'']
                      reminderForm (initialWorld\<lparr>customers := [ama, kofi, abena]\<rparr>)))
     = [Some (ascii ''2025-11-11T09:00:00.000Z''), Some (ascii ''2025-11-11T09:00:00.000Z''),
        Some (ascii ''2025-11-11T09:00:00.000Z'')]"
proof -
  have f: "host rejectThirdEnv = utcHost \<and> now rejectThirdEnv = 1762851600000
      \<and> vendor rejectThirdEnv = None \<and> apiKey (config rejectThirdEnv) = ascii ''key''
      \<and> backend rejectThirdEnv
          = acceptingBackend\<lparr>gateway := (\<lambda>n r. if n = 2 then Some (ascii ''Invalid phone number'') else None)\<rparr>"
    by (simp add: rejectThirdEnv_def exampleEnv_def)
  have ids: "c_id ama = Some (ascii ''c1'') \<and> c_id kofi = Some (ascii ''c2'') \<and> c_id abena = Some (ascii ''c3'')
      \<and> c_name abena = ascii ''Abena Owusu''"
    by (simp add: ama_def kofi_def abena_def)
  have ph: "formattedPhone (c_phone abena) = ascii ''233501234567''"
    by (simp add: abena_def formattedPhone_def removeWhitespace_def isSpace_def startsWith_def
        substringFrom_def ascii_def charCode_def)
  have iso: "toISOString utcHost 1762851600000 = ascii ''2025-11-11T09:00:00.000Z''"
    by (simp add: utcHost_def utc_iso_1762851600000)
  show ?thesis
    by (simp add: handleSubmitSMS_def stampReminder_def bulkResult_def sendSMS_def f ids ph iso
        formattedPhone_ama formattedPhone_kofi acceptingBackend_def initialWorld_def Let_def
        showNat.simps digit_def
      ascii_def charCode_def)
qed

end
